theory Spec2Isabelle
  imports Complex_Main
begin

section \<open>Python values and exceptions\<close>

text \<open>
  The worker handles three kinds of dynamically typed data: the JSON bodies returned by the
  marketplace API, the offer dictionaries handed from the extractor to the loader, and
  \<^verbatim>\<open>decimal.Decimal\<close> numbers. A decimal is a sign, a coefficient and an exponent, an
  infinity, or a (quiet or signalling) NaN with its payload. A Python \<^verbatim>\<open>float\<close> is kept as
  the text \<^verbatim>\<open>str()\<close> prints for it, which is the only thing the worker ever does with one.
  Dictionaries have string keys (they come from JSON or from literals of the code) and are
  association lists read with \<open>map_of\<close>. Strings are lists of 8-bit characters.
\<close>

datatype decimal = Finite bool nat int | Infinite bool | NaN bool bool nat

datatype pyval =
    PNone
  | PBool bool
  | PInt int
  | PFloat string
  | PStr string
  | PDec decimal
  | PList "pyval list"
  | PDict "(string \<times> pyval) list"

text \<open>
  The exceptions the code can meet, all of them subclasses of \<^verbatim>\<open>Exception\<close>.
  \<open>InvalidOperation\<close> is \<^verbatim>\<open>decimal.InvalidOperation\<close> (an \<^verbatim>\<open>ArithmeticError\<close>, not a
  \<^verbatim>\<open>ValueError\<close>); \<open>RequestException\<close> stands for the transport errors of \<^verbatim>\<open>requests\<close>
  (connection, timeout, retries exhausted), \<open>HTTPError\<close> for \<^verbatim>\<open>raise_for_status\<close>,
  \<open>JSONDecodeError\<close> for \<^verbatim>\<open>response.json()\<close>, \<open>DatabaseError\<close> for whatever the database
  driver raises.
\<close>

datatype pyexc =
    KeyError string
  | TypeError
  | AttributeError
  | ValueError
  | ZeroDivisionError
  | InvalidOperation
  | RequestException
  | HTTPError nat
  | JSONDecodeError
  | DatabaseError string

section \<open>The token bucket (rate\_limiter.py)\<close>

text \<open>
  \<^verbatim>\<open>TokenBucketRateLimiter\<close>. Times and token counts are Python floats in the source; they
  are exact rationals here, so rounding is not modelled. The lock makes each call of
  \<^verbatim>\<open>acquire\<close> atomic, which is why a sequential function models it.
\<close>

record rate_limiter =
  rate :: int
  burst_size :: int
  tokens_per_second :: rat
  tokens :: rat
  last_refill :: rat
  total_requests :: nat
  total_waits :: nat

text \<open>
  \<^verbatim>\<open>__init__(rate, burst_size)\<close> at time \<open>now\<close>, the two defaults of the configuration
  already filled in by the caller.
\<close>

definition rate_limiter_init :: "int \<Rightarrow> int \<Rightarrow> rat \<Rightarrow> rate_limiter" where
  "rate_limiter_init r b now =
     \<lparr>rate = r, burst_size = b, tokens_per_second = of_int r / 60, tokens = of_int b,
      last_refill = now, total_requests = 0, total_waits = 0\<rparr>"

text \<open>The first statements of \<^verbatim>\<open>acquire\<close>: refill by the elapsed time, capped at the burst size.\<close>

definition refill :: "rat \<Rightarrow> rate_limiter \<Rightarrow> rate_limiter" where
  "refill now s =
     s\<lparr>tokens := min (of_int (burst_size s))
                     (tokens s + (now - last_refill s) * tokens_per_second s),
       last_refill := now\<rparr>"

text \<open>
  \<^verbatim>\<open>acquire(tokens=n)\<close>. \<open>now\<close> is the reading of \<^verbatim>\<open>time.time()\<close> on entry and \<open>woke\<close> the
  reading after the sleep. The division raises \<^verbatim>\<open>ZeroDivisionError\<close> for a zero rate and
  \<^verbatim>\<open>time.sleep\<close> raises \<^verbatim>\<open>ValueError\<close> for a negative length; both leave the refilled state
  behind.
\<close>

definition acquire :: "int \<Rightarrow> rat \<Rightarrow> rat \<Rightarrow> rate_limiter \<Rightarrow> (pyexc + rat) \<times> rate_limiter" where
  "acquire n now woke s =
     (let s1 = refill now s in
      if of_int n \<le> tokens s1 then
        (Inr 0, s1\<lparr>tokens := tokens s1 - of_int n, total_requests := total_requests s1 + 1\<rparr>)
      else if tokens_per_second s1 = 0 then (Inl ZeroDivisionError, s1)
      else
        (let tokens_needed = of_int n - tokens s1;
             wait_time = tokens_needed / tokens_per_second s1
         in if wait_time < 0 then (Inl ValueError, s1)
            else (Inr wait_time,
                  s1\<lparr>tokens := 0, last_refill := woke,
                     total_requests := total_requests s1 + 1,
                     total_waits := total_waits s1 + 1\<rparr>)))"

text \<open>\<^verbatim>\<open>get_stats\<close>: requests, waits, current tokens and the percentage of waits.\<close>

definition get_stats :: "rate_limiter \<Rightarrow> nat \<times> nat \<times> rat \<times> rat" where
  "get_stats s =
     (total_requests s, total_waits s, tokens s,
      if 0 < total_requests s then of_nat (total_waits s) / of_nat (total_requests s) * 100 else 0)"

section \<open>Properties of the token bucket\<close>

lemma refill_tokens_per_second [simp]: "tokens_per_second (refill now s) = tokens_per_second s"
  by (simp add: refill_def)

lemma acquire_tokens_per_second [simp]:
  "tokens_per_second (snd (acquire n now woke s)) = tokens_per_second s"
  by (simp add: acquire_def Let_def)

lemma acquire_never_raises:
  assumes "0 < tokens_per_second s"
  shows "\<exists>w. fst (acquire n now woke s) = Inr w"
proof (cases "of_int n \<le> tokens (refill now s)")
  case True
  then show ?thesis by (simp add: acquire_def Let_def)
next
  case False
  then have "0 < of_int n - tokens (refill now s)" by simp
  with assms have "\<not> (of_int n - tokens (refill now s)) / tokens_per_second s < 0"
    by (simp add: divide_less_0_iff)
  with False assms show ?thesis by (simp add: acquire_def Let_def)
qed



section \<open>Python operations on values\<close>

text \<open>Sequencing of computations that may raise: the first exception wins.\<close>

definition ebind :: "pyexc + 'a \<Rightarrow> ('a \<Rightarrow> pyexc + 'b) \<Rightarrow> pyexc + 'b" where
  "ebind m f = (case m of Inl e \<Rightarrow> Inl e | Inr a \<Rightarrow> f a)"

text \<open>\<^verbatim>\<open>[f(x) for x in xs]\<close>, stopping at the first element on which \<open>f\<close> raises.\<close>

fun emap :: "('a \<Rightarrow> pyexc + 'b) \<Rightarrow> 'a list \<Rightarrow> pyexc + 'b list" where
  "emap f [] = Inr []"
| "emap f (x # xs) =
     (case f x of Inl e \<Rightarrow> Inl e
      | Inr y \<Rightarrow> (case emap f xs of Inl e \<Rightarrow> Inl e | Inr ys \<Rightarrow> Inr (y # ys)))"

text \<open>
  \<^verbatim>\<open>v[key]\<close> with a string key: a dictionary raises \<^verbatim>\<open>KeyError\<close> for a missing key, every
  other value \<^verbatim>\<open>TypeError\<close> (not subscriptable, or indices must be integers).
\<close>

fun py_getitem :: "pyval \<Rightarrow> string \<Rightarrow> pyexc + pyval" where
  "py_getitem (PDict kvs) key =
     (case map_of kvs key of None \<Rightarrow> Inl (KeyError key) | Some v \<Rightarrow> Inr v)"
| "py_getitem _ key = Inl TypeError"

text \<open>\<^verbatim>\<open>v.get(key, default)\<close>: only a dictionary has the method.\<close>

definition dict_get :: "(string \<times> pyval) list \<Rightarrow> string \<Rightarrow> pyval \<Rightarrow> pyval" where
  "dict_get kvs key dflt = (case map_of kvs key of None \<Rightarrow> dflt | Some v \<Rightarrow> v)"

fun py_get :: "pyval \<Rightarrow> string \<Rightarrow> pyval \<Rightarrow> pyexc + pyval" where
  "py_get (PDict kvs) key dflt = Inr (dict_get kvs key dflt)"
| "py_get _ key dflt = Inl AttributeError"

text \<open>
  \<^verbatim>\<open>for x in v\<close>: a list gives its elements, a dictionary its keys, a string its
  characters; nothing else is iterable.
\<close>

fun py_iter :: "pyval \<Rightarrow> pyexc + pyval list" where
  "py_iter (PList xs) = Inr xs"
| "py_iter (PDict kvs) = Inr (map (\<lambda>kv. PStr (fst kv)) kvs)"
| "py_iter (PStr s) = Inr (map (\<lambda>c. PStr [c]) s)"
| "py_iter _ = Inl TypeError"


section \<open>Decimal literals\<close>

text \<open>
  \<^verbatim>\<open>Decimal(s)\<close> for a string, after the grammar of the \<^verbatim>\<open>decimal\<close> module: surrounding
  white space and all underscores are removed; then an optional sign, and either digits
  with an optional fraction and exponent, or \<^verbatim>\<open>Inf\<close>/\<^verbatim>\<open>Infinity\<close>, or \<^verbatim>\<open>NaN\<close>/\<^verbatim>\<open>sNaN\<close>
  with optional payload digits, letters in either case. Anything else raises
  \<^verbatim>\<open>InvalidOperation\<close>. Only ASCII digits and white space are modelled.
\<close>

definition py_isspace :: "char \<Rightarrow> bool" where
  "py_isspace c = (c \<in> set [CHR 0x09, CHR 0x0A, CHR 0x0B, CHR 0x0C, CHR 0x0D,
                             CHR 0x1C, CHR 0x1D, CHR 0x1E, CHR 0x1F, CHR 0x20])"

definition py_strip :: "string \<Rightarrow> string" where
  "py_strip s = rev (dropWhile py_isspace (rev (dropWhile py_isspace s)))"

definition digit_of :: "char \<Rightarrow> nat option" where
  "digit_of c = map_of (zip ''0123456789'' [0, 1, 2, 3, 4, 5, 6, 7, 8, 9]) c"

definition is_digit :: "char \<Rightarrow> bool" where
  "is_digit c = (digit_of c \<noteq> None)"

definition nat_of_digits :: "string \<Rightarrow> nat" where
  "nat_of_digits ds = foldl (\<lambda>a c. 10 * a + (case digit_of c of Some d \<Rightarrow> d | None \<Rightarrow> 0)) 0 ds"

definition py_lower :: "char \<Rightarrow> char" where
  "py_lower c =
     (case map_of (zip ''ABCDEFGHIJKLMNOPQRSTUVWXYZ'' ''abcdefghijklmnopqrstuvwxyz'') c of
        Some l \<Rightarrow> l | None \<Rightarrow> c)"

text \<open>An optional sign in front: whether it is a minus, and the rest.\<close>

fun split_sign :: "string \<Rightarrow> bool \<times> string" where
  "split_sign [] = (False, [])"
| "split_sign (c # cs) =
     (if c = CHR ''-'' then (True, cs) else if c = CHR ''+'' then (False, cs) else (False, c # cs))"

text \<open>The exponent part: empty, or \<^verbatim>\<open>e\<close>, an optional sign and at least one digit.\<close>

definition parse_exponent :: "string \<Rightarrow> int option" where
  "parse_exponent s =
     (case s of
        [] \<Rightarrow> Some 0
      | c # cs \<Rightarrow>
          if py_lower c = CHR ''e'' then
            (case split_sign cs of
               (neg, ds) \<Rightarrow>
                 if ds \<noteq> [] \<and> list_all is_digit ds
                 then Some (if neg then - int (nat_of_digits ds) else int (nat_of_digits ds))
                 else None)
          else None)"

text \<open>The numeric form: digits, an optional point and fraction, an optional exponent.\<close>

definition parse_number :: "bool \<Rightarrow> string \<Rightarrow> pyexc + decimal" where
  "parse_number neg body =
     (let intpart = takeWhile is_digit body;
          rest = dropWhile is_digit body;
          frac = (case rest of [] \<Rightarrow> [] | c # cs \<Rightarrow> if c = CHR ''.'' then takeWhile is_digit cs else []);
          tail = (case rest of [] \<Rightarrow> [] | c # cs \<Rightarrow> if c = CHR ''.'' then dropWhile is_digit cs else rest)
      in if intpart = [] \<and> frac = [] then Inl InvalidOperation
         else (case parse_exponent tail of
                 None \<Rightarrow> Inl InvalidOperation
               | Some ex \<Rightarrow> Inr (Finite neg (nat_of_digits (intpart @ frac)) (ex - int (length frac)))))"

definition Decimal_str :: "string \<Rightarrow> pyexc + decimal" where
  "Decimal_str s0 =
     (case split_sign (filter (\<lambda>c. c \<noteq> CHR ''_'') (py_strip s0)) of
        (neg, body) \<Rightarrow>
          (let low = map py_lower body in
           if low = ''inf'' \<or> low = ''infinity'' then Inr (Infinite neg)
           else if take 3 low = ''nan'' \<and> list_all is_digit (drop 3 low)
             then Inr (NaN neg False (nat_of_digits (drop 3 low)))
           else if take 4 low = ''snan'' \<and> list_all is_digit (drop 4 low)
             then Inr (NaN neg True (nat_of_digits (drop 4 low)))
           else parse_number neg body))"

text \<open>
  \<^verbatim>\<open>Decimal(str(v))\<close>. An integer prints as its digits and a float as its \<^verbatim>\<open>repr\<close>; a string
  prints as itself and a decimal as a literal that reads back as the same decimal.
  \<^verbatim>\<open>None\<close>, a boolean, a list and a dictionary print as text that is no decimal literal
  (\<^verbatim>\<open>None\<close>, \<^verbatim>\<open>True\<close>, \<^verbatim>\<open>[...]\<close>, \<^verbatim>\<open>{...}\<close>).
\<close>

fun Decimal_of_str :: "pyval \<Rightarrow> pyexc + decimal" where
  "Decimal_of_str (PStr s) = Decimal_str s"
| "Decimal_of_str (PInt i) = Inr (Finite (i < 0) (nat \<bar>i\<bar>) 0)"
| "Decimal_of_str (PFloat r) = Decimal_str r"
| "Decimal_of_str (PDec d) = Inr d"
| "Decimal_of_str _ = Inl InvalidOperation"

text \<open>
  \<^verbatim>\<open>d <= 0\<close> for a decimal: an ordering comparison with a NaN signals \<^verbatim>\<open>InvalidOperation\<close>,
  which the default context raises.
\<close>

fun dec_le_zero :: "decimal \<Rightarrow> pyexc + bool" where
  "dec_le_zero (Finite neg c e) = Inr (c = 0 \<or> neg)"
| "dec_le_zero (Infinite neg) = Inr neg"
| "dec_le_zero (NaN neg sig pl) = Inl InvalidOperation"

section \<open>Parsing one offer (extractor.py)\<close>

text \<open>
  The inner \<^verbatim>\<open>try\<close> block of \<^verbatim>\<open>_parse_offer\<close>: the four numeric fields, and the check of price
  and amount. \<open>Inr None\<close> is the \<^verbatim>\<open>return None\<close> of the check. \<^verbatim>\<open>or\<close> evaluates its second
  operand only when the first is false.
\<close>

definition parse_numeric :: "pyval \<Rightarrow> pyexc + (decimal \<times> decimal \<times> decimal \<times> decimal) option" where
  "parse_numeric adv =
     ebind (py_get adv ''price'' (PInt 0)) (\<lambda>v1.
     ebind (Decimal_of_str v1) (\<lambda>price.
     ebind (py_get adv ''surplusAmount'' (PInt 0)) (\<lambda>v2.
     ebind (Decimal_of_str v2) (\<lambda>available_amount.
     ebind (py_get adv ''minSingleTransAmount'' (PInt 0)) (\<lambda>v3.
     ebind (Decimal_of_str v3) (\<lambda>min_limit.
     ebind (py_get adv ''maxSingleTransAmount'' (PInt 0)) (\<lambda>v4.
     ebind (Decimal_of_str v4) (\<lambda>max_limit.
     ebind (dec_le_zero price) (\<lambda>bad_price.
       if bad_price then Inr None
       else ebind (dec_le_zero available_amount) (\<lambda>bad_amount.
         if bad_amount then Inr None
         else Inr (Some (price, available_amount, min_limit, max_limit))))))))))))"

text \<open>
  The inner handler, \<^verbatim>\<open>except (ValueError, TypeError): return None\<close>; any other exception
  goes on to the outer handlers.
\<close>

definition parse_numeric_guarded :: "pyval \<Rightarrow> pyexc + (decimal \<times> decimal \<times> decimal \<times> decimal) option" where
  "parse_numeric_guarded adv =
     (case parse_numeric adv of
        Inl ValueError \<Rightarrow> Inr None
      | Inl TypeError \<Rightarrow> Inr None
      | r \<Rightarrow> r)"

text \<open>
  The body of the outer \<^verbatim>\<open>try\<close>. \<open>uid\<close> is the text of the fresh \<^verbatim>\<open>uuid.uuid4()\<close>. The result
  dictionary has the ten keys of the source, in its order.
\<close>

definition parse_offer_body :: "string \<Rightarrow> pyval \<Rightarrow> pyexc + pyval option" where
  "parse_offer_body uid ad =
     ebind (py_getitem ad ''adv'') (\<lambda>adv.
     ebind (py_getitem ad ''advertiser'') (\<lambda>advertiser.
     ebind (parse_numeric_guarded adv) (\<lambda>nums.
       case nums of
         None \<Rightarrow> Inr None
       | Some (price, available_amount, min_limit, max_limit) \<Rightarrow>
           ebind (py_get adv ''tradeMethods'' (PList [])) (\<lambda>tms.
           ebind (py_iter tms) (\<lambda>methods.
           ebind (emap (\<lambda>method. py_get method ''payType'' PNone) methods) (\<lambda>payment_methods.
           ebind (py_get advertiser ''nickName'' PNone) (\<lambda>nick.
           ebind (py_get adv ''asset'' PNone) (\<lambda>asset.
           ebind (py_get adv ''fiatUnit'' PNone) (\<lambda>fiat.
           ebind (py_get adv ''tradeType'' PNone) (\<lambda>trade_type.
             Inr (Some (PDict
               [(''offer_external_id'', PStr uid),
                (''advertiser_nickname'', nick),
                (''price'', PDec price),
                (''available_amount'', PDec available_amount),
                (''min_limit'', PDec min_limit),
                (''max_limit'', PDec max_limit),
                (''payment_methods'', PList payment_methods),
                (''asset'', asset),
                (''fiat'', fiat),
                (''trade_type'', trade_type)]))))))))))))"

text \<open>
  \<^verbatim>\<open>_parse_offer\<close>: the outer handlers (\<^verbatim>\<open>except KeyError\<close>, then \<^verbatim>\<open>except Exception\<close>) turn
  every exception into \<^verbatim>\<open>None\<close>.
\<close>

definition parse_offer :: "string \<Rightarrow> pyval \<Rightarrow> pyval option" where
  "parse_offer uid ad =
     (case parse_offer_body uid ad of
        Inl (KeyError k) \<Rightarrow> None
      | Inl e \<Rightarrow> None
      | Inr r \<Rightarrow> r)"

section \<open>Properties of the parser\<close>

lemma ebind_Inr: "ebind m f = Inr y \<longleftrightarrow> (\<exists>a. m = Inr a \<and> f a = Inr y)"
  by (cases m) (simp_all add: ebind_def)

lemma py_getitem_Inr:
  "py_getitem v k = Inr x \<longleftrightarrow> (\<exists>kvs. v = PDict kvs \<and> map_of kvs k = Some x)"
  by (cases v) (auto split: option.splits)

lemma py_get_Inr:
  "py_get v k d = Inr x \<longleftrightarrow> (\<exists>kvs. v = PDict kvs \<and> x = dict_get kvs k d)"
  by (cases v) auto

lemma dec_le_zero_cases: "dec_le_zero d = Inr True \<or> dec_le_zero d = Inr False \<or> dec_le_zero d = Inl InvalidOperation"
  by (cases d) auto

lemma parse_numeric_Some:
  "parse_numeric adv = Inr (Some (p, q, lo, hi)) \<longleftrightarrow>
     (\<exists>a. adv = PDict a \<and>
        Decimal_of_str (dict_get a ''price'' (PInt 0)) = Inr p \<and>
        Decimal_of_str (dict_get a ''surplusAmount'' (PInt 0)) = Inr q \<and>
        Decimal_of_str (dict_get a ''minSingleTransAmount'' (PInt 0)) = Inr lo \<and>
        Decimal_of_str (dict_get a ''maxSingleTransAmount'' (PInt 0)) = Inr hi \<and>
        dec_le_zero p = Inr False \<and> dec_le_zero q = Inr False)"
proof
  assume "parse_numeric adv = Inr (Some (p, q, lo, hi))"
  then show "\<exists>a. adv = PDict a \<and>
        Decimal_of_str (dict_get a ''price'' (PInt 0)) = Inr p \<and>
        Decimal_of_str (dict_get a ''surplusAmount'' (PInt 0)) = Inr q \<and>
        Decimal_of_str (dict_get a ''minSingleTransAmount'' (PInt 0)) = Inr lo \<and>
        Decimal_of_str (dict_get a ''maxSingleTransAmount'' (PInt 0)) = Inr hi \<and>
        dec_le_zero p = Inr False \<and> dec_le_zero q = Inr False"
    unfolding parse_numeric_def
    by (auto simp: ebind_Inr py_get_Inr split: if_splits)
next
  assume "\<exists>a. adv = PDict a \<and>
        Decimal_of_str (dict_get a ''price'' (PInt 0)) = Inr p \<and>
        Decimal_of_str (dict_get a ''surplusAmount'' (PInt 0)) = Inr q \<and>
        Decimal_of_str (dict_get a ''minSingleTransAmount'' (PInt 0)) = Inr lo \<and>
        Decimal_of_str (dict_get a ''maxSingleTransAmount'' (PInt 0)) = Inr hi \<and>
        dec_le_zero p = Inr False \<and> dec_le_zero q = Inr False"
  then show "parse_numeric adv = Inr (Some (p, q, lo, hi))"
    by (auto simp: parse_numeric_def ebind_def)
qed

lemma parse_numeric_guarded_Some:
  "parse_numeric_guarded adv = Inr (Some n) \<longleftrightarrow> parse_numeric adv = Inr (Some n)"
  by (auto simp: parse_numeric_guarded_def split: sum.splits pyexc.splits)

lemma parse_offer_Some: "parse_offer uid ad = Some v \<longleftrightarrow> parse_offer_body uid ad = Inr (Some v)"
  by (auto simp: parse_offer_def split: sum.splits pyexc.splits)

lemma parse_offer_Some_iff:
  "parse_offer uid ad = Some v \<longleftrightarrow>
     (\<exists>kvs a r p q lo hi ms pms.
        ad = PDict kvs \<and> map_of kvs ''adv'' = Some (PDict a) \<and>
        map_of kvs ''advertiser'' = Some (PDict r) \<and>
        Decimal_of_str (dict_get a ''price'' (PInt 0)) = Inr p \<and>
        Decimal_of_str (dict_get a ''surplusAmount'' (PInt 0)) = Inr q \<and>
        Decimal_of_str (dict_get a ''minSingleTransAmount'' (PInt 0)) = Inr lo \<and>
        Decimal_of_str (dict_get a ''maxSingleTransAmount'' (PInt 0)) = Inr hi \<and>
        dec_le_zero p = Inr False \<and> dec_le_zero q = Inr False \<and>
        py_iter (dict_get a ''tradeMethods'' (PList [])) = Inr ms \<and>
        emap (\<lambda>method. py_get method ''payType'' PNone) ms = Inr pms \<and>
        v = PDict
              [(''offer_external_id'', PStr uid),
               (''advertiser_nickname'', dict_get r ''nickName'' PNone),
               (''price'', PDec p),
               (''available_amount'', PDec q),
               (''min_limit'', PDec lo),
               (''max_limit'', PDec hi),
               (''payment_methods'', PList pms),
               (''asset'', dict_get a ''asset'' PNone),
               (''fiat'', dict_get a ''fiatUnit'' PNone),
               (''trade_type'', dict_get a ''tradeType'' PNone)])"
  (is "?L \<longleftrightarrow> ?R")
proof
  assume ?L
  then have b: "parse_offer_body uid ad = Inr (Some v)" by (simp add: parse_offer_Some)
  then obtain adv advertiser nums where
    1: "py_getitem ad ''adv'' = Inr adv" and
    2: "py_getitem ad ''advertiser'' = Inr advertiser" and
    3: "parse_numeric_guarded adv = Inr nums"
    unfolding parse_offer_body_def by (auto simp: ebind_Inr)
  from b 1 2 3 show ?R
    unfolding parse_offer_body_def
    by (cases nums)
       (auto simp: ebind_Inr py_get_Inr py_getitem_Inr parse_numeric_guarded_Some parse_numeric_Some)
next
  assume ?R
  then obtain kvs a r p q lo hi ms pms where h:
    "ad = PDict kvs" "map_of kvs ''adv'' = Some (PDict a)"
    "map_of kvs ''advertiser'' = Some (PDict r)"
    "parse_numeric (PDict a) = Inr (Some (p, q, lo, hi))"
    "py_iter (dict_get a ''tradeMethods'' (PList [])) = Inr ms"
    "emap (\<lambda>method. py_get method ''payType'' PNone) ms = Inr pms"
    "v = PDict
              [(''offer_external_id'', PStr uid),
               (''advertiser_nickname'', dict_get r ''nickName'' PNone),
               (''price'', PDec p),
               (''available_amount'', PDec q),
               (''min_limit'', PDec lo),
               (''max_limit'', PDec hi),
               (''payment_methods'', PList pms),
               (''asset'', dict_get a ''asset'' PNone),
               (''fiat'', dict_get a ''fiatUnit'' PNone),
               (''trade_type'', dict_get a ''tradeType'' PNone)]"
    unfolding parse_numeric_Some by blast
  from h(4) have g: "parse_numeric_guarded (PDict a) = Inr (Some (p, q, lo, hi))"
    by (simp add: parse_numeric_guarded_Some)
  have "parse_offer_body uid ad = Inr (Some v)"
    unfolding parse_offer_body_def using h(1,2,3,5,6,7) g
    by (simp add: ebind_def)
  then show ?L by (simp add: parse_offer_Some)
qed




definition raw_offer_plain :: pyval where
  "raw_offer_plain =
     PDict [(''adv'', PDict [(''price'', PStr ''36.50''), (''surplusAmount'', PInt 100),
                            (''minSingleTransAmount'', PStr ''10''),
                            (''maxSingleTransAmount'', PStr ''5e3''),
                            (''tradeMethods'', PList [PDict [(''payType'', PStr ''BANK'')]]),
                            (''asset'', PStr ''USDT''), (''fiatUnit'', PStr ''VES''),
                            (''tradeType'', PStr ''SELL'')]),
            (''advertiser'', PDict [(''nickName'', PStr ''ana'')])]"

lemmas decimal_eval =
  Decimal_str_def py_strip_def py_isspace_def parse_number_def parse_exponent_def
  is_digit_def digit_of_def nat_of_digits_def py_lower_def



section \<open>The outside world of the extractor\<close>

text \<open>
  The worker's settings (config.py) that the extractor reads.
\<close>

record settings =
  binance_base_url :: string
  binance_search_endpoint :: string
  binance_pairs_endpoint :: string
  max_workers :: int
  request_timeout_seconds :: int
  max_retries :: int
  max_pages_per_pair :: int


definition pairs_url :: "settings \<Rightarrow> string" where
  "pairs_url cfg = binance_base_url cfg @ binance_pairs_endpoint cfg"

text \<open>
  What \<^verbatim>\<open>session.post\<close> comes back with once the mounted retry adapter is done: an
  exception of the transport (connection error, timeout, retries exhausted), or a response
  with its status code and, when the body is JSON, the decoded body.
\<close>

datatype http_reply = Failed pyexc | Response nat "pyval option"

text \<open>
  Everything the extractor reads from or writes to outside its own variables: the shared
  rate limiter, the successive readings of \<^verbatim>\<open>time.time()\<close>, the reply the server gives to
  the k-th POST, the log of the POSTs sent (URL and JSON payload), and the identifiers that
  \<^verbatim>\<open>uuid.uuid4()\<close> hands out, one index per parsed record.
\<close>

record world =
  limiter :: rate_limiter
  clock :: "nat \<Rightarrow> rat"
  time_calls :: nat
  replies :: "nat \<Rightarrow> http_reply"
  sent :: "(string \<times> pyval) list"
  uuid_src :: "nat \<Rightarrow> string"
  uuid_calls :: nat

text \<open>
  \<^verbatim>\<open>rate_limiter.acquire()\<close> on the global limiter: one clock reading on entry and a second
  one after a sleep.
\<close>

definition rl_acquire :: "world \<Rightarrow> (pyexc + rat) \<times> world" where
  "rl_acquire w =
     (case acquire 1 (clock w (time_calls w)) (clock w (time_calls w + 1)) (limiter w) of
        (r, l) \<Rightarrow>
          (r, w\<lparr>limiter := l,
                time_calls := time_calls w +
                  (if total_waits l = total_waits (limiter w) then 1 else 2)\<rparr>))"

text \<open>
  \<^verbatim>\<open>response = self.session.post(url, json=payload, ...)\<close>,
  \<^verbatim>\<open>response.raise_for_status()\<close>, \<^verbatim>\<open>data = response.json()\<close>.
\<close>

definition session_post :: "string \<Rightarrow> pyval \<Rightarrow> world \<Rightarrow> (pyexc + nat \<times> pyval option) \<times> world" where
  "session_post url payload w =
     (case replies w (length (sent w)) of
        Failed e \<Rightarrow> (Inl e, w\<lparr>sent := sent w @ [(url, payload)]\<rparr>)
      | Response status body \<Rightarrow> (Inr (status, body), w\<lparr>sent := sent w @ [(url, payload)]\<rparr>))"

definition raise_for_status :: "nat \<Rightarrow> pyexc + unit" where
  "raise_for_status status = (if 400 \<le> status \<and> status < 600 then Inl (HTTPError status) else Inr ())"

definition response_json :: "pyval option \<Rightarrow> pyexc + pyval" where
  "response_json body = (case body of None \<Rightarrow> Inl JSONDecodeError | Some v \<Rightarrow> Inr v)"

definition post_json :: "string \<Rightarrow> pyval \<Rightarrow> world \<Rightarrow> (pyexc + pyval) \<times> world" where
  "post_json url payload w =
     (case session_post url payload w of
        (Inl e, w1) \<Rightarrow> (Inl e, w1)
      | (Inr (status, body), w1) \<Rightarrow>
          (ebind (raise_for_status status) (\<lambda>u. response_json body), w1))"

section \<open>Pair discovery (extractor.py)\<close>

text \<open>The two dictionaries appended for one asset of one fiat.\<close>

definition trading_pair :: "pyval \<Rightarrow> pyval \<Rightarrow> string \<Rightarrow> pyval" where
  "trading_pair fiat asset trade_type =
     PDict [(''fiat'', fiat), (''asset'', asset), (''trade_type'', PStr trade_type)]"

definition asset_pairs :: "pyval \<Rightarrow> pyval \<Rightarrow> pyval list" where
  "asset_pairs fiat asset = [trading_pair fiat asset ''BUY'', trading_pair fiat asset ''SELL'']"

text \<open>The body of the outer \<^verbatim>\<open>for item in data.get("data", [])\<close> loop.\<close>

definition item_pairs :: "pyval \<Rightarrow> pyexc + pyval list" where
  "item_pairs item =
     ebind (py_get item ''fiatUnit'' PNone) (\<lambda>fiat.
     ebind (py_get item ''assetList'' (PList [])) (\<lambda>assets.
     ebind (py_iter assets) (\<lambda>as.
       Inr (concat (map (asset_pairs fiat) as)))))"

text \<open>
  The \<^verbatim>\<open>try\<close> block of \<^verbatim>\<open>get_all_trading_pairs\<close> from the decoded body on: the check of the
  application-level code, then the expansion of every item.
\<close>

definition pairs_of_body :: "pyval \<Rightarrow> pyexc + pyval list" where
  "pairs_of_body data =
     ebind (py_get data ''code'' PNone) (\<lambda>code.
       if code \<noteq> PStr ''000000'' then Inr []
       else
         ebind (py_get data ''data'' (PList [])) (\<lambda>d.
         ebind (py_iter d) (\<lambda>items.
         ebind (emap item_pairs items) (\<lambda>pss.
           Inr (concat pss)))))"

text \<open>
  \<^verbatim>\<open>get_all_trading_pairs\<close>. The call of the rate limiter stands before the \<^verbatim>\<open>try\<close>, so an
  exception of the limiter leaves the function; every exception of the \<^verbatim>\<open>try\<close> block is
  caught and gives the empty list.
\<close>

definition get_all_trading_pairs :: "settings \<Rightarrow> world \<Rightarrow> (pyexc + pyval list) \<times> world" where
  "get_all_trading_pairs cfg w =
     (case rl_acquire w of
        (Inl e, w1) \<Rightarrow> (Inl e, w1)
      | (Inr waited, w1) \<Rightarrow>
          (case post_json (pairs_url cfg) (PDict []) w1 of
             (Inl e, w2) \<Rightarrow> (Inr [], w2)
           | (Inr data, w2) \<Rightarrow>
               (case pairs_of_body data of
                  Inl e \<Rightarrow> (Inr [], w2)
                | Inr pairs \<Rightarrow> (Inr pairs, w2))))"

section \<open>Paginated extraction of one pair (extractor.py)\<close>



text \<open>
  The \<^verbatim>\<open>for ad in offers\<close> loop: every record is parsed with a fresh identifier and kept
  when \<^verbatim>\<open>_parse_offer\<close> returns an offer.
\<close>

fun parse_all :: "pyval list \<Rightarrow> world \<Rightarrow> pyval list \<times> world" where
  "parse_all [] w = ([], w)"
| "parse_all (ad # ads) w =
     (case parse_all ads (w\<lparr>uuid_calls := uuid_calls w + 1\<rparr>) of
        (rest, w') \<Rightarrow>
          (case parse_offer (uuid_src w (uuid_calls w)) ad of
             None \<Rightarrow> (rest, w')
           | Some parsed_offer \<Rightarrow> (parsed_offer # rest, w')))"





section \<open>Extraction of all pairs (extractor.py)\<close>

text \<open>
  The loop over \<^verbatim>\<open>as_completed\<close>: a future that returns extends the list, a future that raises
  is logged and skipped.
\<close>

fun collect_completed :: "pyval list \<Rightarrow> (pyval \<times> (pyexc + pyval list)) list \<Rightarrow> pyval list" where
  "collect_completed all_offers [] = all_offers"
| "collect_completed all_offers ((pair, Inr offers) # futures) =
     collect_completed (all_offers @ offers) futures"
| "collect_completed all_offers ((pair, Inl e) # futures) =
     collect_completed all_offers futures"

text \<open>
  \<^verbatim>\<open>extract_all_offers\<close>. The worker pool runs the pair tasks concurrently; \<open>pool\<close> stands for
  one run of it: for the pairs submitted it gives the futures in the order in which they
  completed, each with its pair and with what \<^verbatim>\<open>future.result()\<close> does (returns offers, or
  raises). What the tasks do to the rate limiter is not tracked in the world returned.
\<close>

definition extract_all_offers ::
  "settings \<Rightarrow> (pyval list \<Rightarrow> (pyval \<times> (pyexc + pyval list)) list) \<Rightarrow> world
     \<Rightarrow> (pyexc + pyval list) \<times> world" where
  "extract_all_offers cfg pool w =
     (case get_all_trading_pairs cfg w of
        (Inl e, w1) \<Rightarrow> (Inl e, w1)
      | (Inr pairs, w1) \<Rightarrow>
          if pairs = [] then (Inr [], w1)
          else (Inr (collect_completed [] (pool pairs)), w1))"

section \<open>Properties of the extractor\<close>

subsection \<open>The world is only touched where the code touches it\<close>

lemma rl_acquire_frame [simp]:
  "replies (snd (rl_acquire w)) = replies w"
  "sent (snd (rl_acquire w)) = sent w"
  "uuid_src (snd (rl_acquire w)) = uuid_src w"
  "uuid_calls (snd (rl_acquire w)) = uuid_calls w"
  "clock (snd (rl_acquire w)) = clock w"
  by (simp_all add: rl_acquire_def case_prod_beta)

lemma rl_acquire_rate [simp]:
  "tokens_per_second (limiter (snd (rl_acquire w))) = tokens_per_second (limiter w)"
  by (simp add: rl_acquire_def case_prod_beta)

lemma rl_acquire_never_raises:
  assumes "0 < tokens_per_second (limiter w)"
  shows "\<exists>waited. fst (rl_acquire w) = Inr waited"
proof -
  from acquire_never_raises [OF assms, of 1 "clock w (time_calls w)" "clock w (time_calls w + 1)"]
  show ?thesis by (simp add: rl_acquire_def case_prod_beta)
qed

lemma post_json_frame [simp]:
  "replies (snd (post_json url payload w)) = replies w"
  "sent (snd (post_json url payload w)) = sent w @ [(url, payload)]"
  "limiter (snd (post_json url payload w)) = limiter w"
  "uuid_src (snd (post_json url payload w)) = uuid_src w"
  "uuid_calls (snd (post_json url payload w)) = uuid_calls w"
  by (simp_all add: post_json_def session_post_def split: http_reply.splits prod.splits sum.splits)

lemma post_json_result:
  "fst (post_json url payload w) =
     (case replies w (length (sent w)) of
        Failed e \<Rightarrow> Inl e
      | Response status body \<Rightarrow> ebind (raise_for_status status) (\<lambda>u. response_json body))"
  by (simp add: post_json_def session_post_def split: http_reply.splits)

lemma parse_all_frame [simp]:
  "replies (snd (parse_all ads w)) = replies w"
  "sent (snd (parse_all ads w)) = sent w"
  "limiter (snd (parse_all ads w)) = limiter w"
  "uuid_src (snd (parse_all ads w)) = uuid_src w"
  by (induction ads arbitrary: w; simp add: case_prod_beta split: option.splits)+


lemma emap_Inr_map: "(\<And>x. x \<in> set xs \<Longrightarrow> f x = Inr (g x)) \<Longrightarrow> emap f xs = Inr (map g xs)"
  by (induction xs) simp_all

lemma length_asset_pairs: "length (concat (map (asset_pairs fiat) as)) = 2 * length as"
  by (induction as) (simp_all add: asset_pairs_def)

lemma get_all_trading_pairs_total:
  assumes "0 < tokens_per_second (limiter w)"
  shows "\<exists>pairs. fst (get_all_trading_pairs cfg w) = Inr pairs"
proof -
  from rl_acquire_never_raises [OF assms] obtain waited where "fst (rl_acquire w) = Inr waited" ..
  then show ?thesis
    by (cases "rl_acquire w")
       (auto simp: get_all_trading_pairs_def split: prod.splits sum.splits)
qed

text \<open>What the discovery returns, read off the reply to its one request.\<close>

lemma get_all_trading_pairs_result:
  assumes "0 < tokens_per_second (limiter w)"
  shows "fst (get_all_trading_pairs cfg w) =
     Inr (case replies w (length (sent w)) of
            Failed e \<Rightarrow> []
          | Response status body \<Rightarrow>
              (case ebind (ebind (raise_for_status status) (\<lambda>u. response_json body)) pairs_of_body of
                 Inl e \<Rightarrow> [] | Inr pairs \<Rightarrow> pairs))"
proof -
  from rl_acquire_never_raises [OF assms] obtain waited where a: "fst (rl_acquire w) = Inr waited" ..
  have f: "replies (snd (rl_acquire w)) (length (sent (snd (rl_acquire w)))) = replies w (length (sent w))"
    by simp
  show ?thesis
    using a f post_json_result [of "pairs_url cfg" "PDict []" "snd (rl_acquire w)"]
    by (simp add: get_all_trading_pairs_def case_prod_beta ebind_def
             split: http_reply.splits sum.splits)
qed

text \<open>
  A reply on which \<^verbatim>\<open>session.post\<close>, \<^verbatim>\<open>raise_for_status\<close> or \<^verbatim>\<open>response.json()\<close> raises: a
  transport error, a status from 400 to 599, or a body that is not JSON.
\<close>

fun request_fails :: "http_reply \<Rightarrow> bool" where
  "request_fails (Failed e) = True"
| "request_fails (Response status body) = ((400 \<le> status \<and> status < 600) \<or> body = None)"

text \<open>
  C10. With a limiter of positive rate, \<open>get_all_trading_pairs\<close> returns a list whatever the
  reply is; on a transport error, an HTTP error status or an undecodable body the list is
  empty; and whenever it is empty \<open>extract_all_offers\<close> returns the empty list too.
\<close>

theorem discovery_never_raises:
  assumes "0 < tokens_per_second (limiter w)"
  shows "(\<exists>pairs. fst (get_all_trading_pairs cfg w) = Inr pairs) \<and>
         (request_fails (replies w (length (sent w))) \<longrightarrow>
            fst (get_all_trading_pairs cfg w) = Inr []) \<and>
         (fst (get_all_trading_pairs cfg w) = Inr [] \<longrightarrow>
            fst (extract_all_offers cfg pool w) = Inr [])"
proof (intro conjI impI)
  show "\<exists>pairs. fst (get_all_trading_pairs cfg w) = Inr pairs"
    by (rule get_all_trading_pairs_total [OF assms])
next
  assume "request_fails (replies w (length (sent w)))"
  then show "fst (get_all_trading_pairs cfg w) = Inr []"
    unfolding get_all_trading_pairs_result [OF assms]
    by (cases "replies w (length (sent w))")
       (auto simp: ebind_def raise_for_status_def response_json_def)
next
  assume "fst (get_all_trading_pairs cfg w) = Inr []"
  then show "fst (extract_all_offers cfg pool w) = Inr []"
    by (cases "get_all_trading_pairs cfg w") (simp add: extract_all_offers_def)
qed

text \<open>
  C8. For a decoded reply \<^verbatim>\<open>{code, data}\<close> of the discovery endpoint: a code other than
  \<^verbatim>\<open>000000\<close> gives the empty list without raising; with the success code and a \<^verbatim>\<open>data\<close> list
  of items, each with an \<^verbatim>\<open>assetList\<close>, the result is, item by item and asset by asset, the
  BUY pair followed by the SELL pair, so its length is twice the number of (fiat, asset)
  combinations.
\<close>

theorem discovery_soft_failure_or_expansion:
  assumes "0 < tokens_per_second (limiter w)"
    and "replies w (length (sent w)) = Response status (Some (PDict body))"
    and "\<not> (400 \<le> status \<and> status < 600)"
  shows "(dict_get body ''code'' PNone \<noteq> PStr ''000000'' \<longrightarrow>
            fst (get_all_trading_pairs cfg w) = Inr []) \<and>
         (dict_get body ''code'' PNone = PStr ''000000'' \<and>
          dict_get body ''data'' (PList []) = PList (map PDict items) \<and>
          (\<forall>item \<in> set items. dict_get item ''assetList'' (PList []) = PList (assets item)) \<longrightarrow>
            fst (get_all_trading_pairs cfg w) =
              Inr (concat (map (\<lambda>item. concat (map (asset_pairs (dict_get item ''fiatUnit'' PNone))
                                                  (assets item))) items)) \<and>
            length (concat (map (\<lambda>item. concat (map (asset_pairs (dict_get item ''fiatUnit'' PNone))
                                                  (assets item))) items)) =
              2 * sum_list (map (\<lambda>item. length (assets item)) items))"
proof -
  have ok: "raise_for_status status = Inr ()"
    using assms(3) by (simp add: raise_for_status_def)
  show ?thesis
  proof (intro conjI impI)
  assume "dict_get body ''code'' PNone \<noteq> PStr ''000000''"
  then show "fst (get_all_trading_pairs cfg w) = Inr []"
    unfolding get_all_trading_pairs_result [OF assms(1)] assms(2)
    using ok by (simp add: ebind_def response_json_def pairs_of_body_def)
  next
  assume h: "dict_get body ''code'' PNone = PStr ''000000'' \<and>
          dict_get body ''data'' (PList []) = PList (map PDict items) \<and>
          (\<forall>item \<in> set items. dict_get item ''assetList'' (PList []) = PList (assets item))"
  have "\<And>x. x \<in> set (map PDict items) \<Longrightarrow>
          item_pairs x = Inr ((\<lambda>x. case x of PDict item \<Rightarrow> concat (map (asset_pairs (dict_get item ''fiatUnit'' PNone)) (assets item)) | _ \<Rightarrow> []) x)"
    using h by (auto simp: item_pairs_def ebind_def)
  then have "emap item_pairs (map PDict items) =
       Inr (map (\<lambda>x. case x of PDict item \<Rightarrow> concat (map (asset_pairs (dict_get item ''fiatUnit'' PNone)) (assets item)) | _ \<Rightarrow> []) (map PDict items))"
    by (rule emap_Inr_map)
  then have e: "emap item_pairs (map PDict items) =
       Inr (map (\<lambda>item. concat (map (asset_pairs (dict_get item ''fiatUnit'' PNone)) (assets item))) items)"
    by (simp add: comp_def)
  show "fst (get_all_trading_pairs cfg w) =
              Inr (concat (map (\<lambda>item. concat (map (asset_pairs (dict_get item ''fiatUnit'' PNone))
                                                  (assets item))) items))"
    unfolding get_all_trading_pairs_result [OF assms(1)] assms(2)
    using ok h e
    by (simp add: ebind_def response_json_def pairs_of_body_def)
  next
  show "length (concat (map (\<lambda>item. concat (map (asset_pairs (dict_get item ''fiatUnit'' PNone))
                                                  (assets item))) items)) =
              2 * sum_list (map (\<lambda>item. length (assets item)) items)"
    by (induction items) (simp_all add: length_asset_pairs)
  qed
qed


subsection \<open>Pagination\<close>














subsection \<open>Sample runs\<close>

text \<open>
  The default settings of config.py, and a world with the configured limiter on a full
  bucket, a clock that stands still and the replies given.
\<close>

definition default_settings :: settings where
  "default_settings =
     \<lparr>binance_base_url = ''https://p2p.binance.com'',
      binance_search_endpoint = ''/bapi/c2c/v2/friendly/c2c/adv/search'',
      binance_pairs_endpoint = ''/bapi/c2c/v2/public/c2c/asset-order/getAllSupportAsset'',
      max_workers = 20, request_timeout_seconds = 30, max_retries = 3,
      max_pages_per_pair = 50\<rparr>"

definition quiet_world :: "(nat \<Rightarrow> http_reply) \<Rightarrow> world" where
  "quiet_world rs =
     \<lparr>limiter = rate_limiter_init 100 20 0, clock = (\<lambda>k. 0), time_calls = 0,
      replies = rs, sent = [],
      uuid_src = (\<lambda>k. replicate (Suc k) CHR ''u''), uuid_calls = 0\<rparr>"






subsection \<open>Collecting the pool's results\<close>

text \<open>What one completed future adds to the result: its offers, or nothing when it raised.\<close>

fun contributed :: "pyval \<times> (pyexc + pyval list) \<Rightarrow> pyval list" where
  "contributed (pair, Inl e) = []"
| "contributed (pair, Inr offers) = offers"

lemma collect_completed_concat:
  "collect_completed all_offers futures = all_offers @ concat (map contributed futures)"
  by (induction all_offers futures rule: collect_completed.induct) simp_all

text \<open>
  C5. With a limiter of positive rate \<open>extract_all_offers\<close> does not raise: it returns the
  concatenation, in completion order, of what every completed pair task contributed, a
  task that raised contributing nothing (and the empty list when no pair was discovered).
  With three tasks of which the first raises and the others return five and seven offers
  the result has exactly twelve offers.
\<close>

theorem extract_all_offers_isolates_failures:
  assumes "0 < tokens_per_second (limiter w)"
  shows "(\<exists>pairs. fst (get_all_trading_pairs cfg w) = Inr pairs \<and>
            fst (extract_all_offers cfg pool w) =
              Inr (if pairs = [] then [] else concat (map contributed (pool pairs)))) \<and>
         collect_completed [] [(pair_a, Inl e), (pair_b, Inr offers_b), (pair_c, Inr offers_c)]
           = offers_b @ offers_c \<and>
         (length offers_b = 5 \<and> length offers_c = 7 \<longrightarrow>
            length (collect_completed []
                      [(pair_a, Inl e), (pair_b, Inr offers_b), (pair_c, Inr offers_c)]) = 12)"
proof (intro conjI impI)
  from get_all_trading_pairs_total [OF assms] obtain pairs where
    p: "fst (get_all_trading_pairs cfg w) = Inr pairs" ..
  then have "fst (extract_all_offers cfg pool w) =
              Inr (if pairs = [] then [] else concat (map contributed (pool pairs)))"
    by (cases "get_all_trading_pairs cfg w")
       (simp add: extract_all_offers_def collect_completed_concat)
  with p show "\<exists>pairs. fst (get_all_trading_pairs cfg w) = Inr pairs \<and>
            fst (extract_all_offers cfg pool w) =
              Inr (if pairs = [] then [] else concat (map contributed (pool pairs)))"
    by blast
next
  show "collect_completed [] [(pair_a, Inl e), (pair_b, Inr offers_b), (pair_c, Inr offers_c)]
           = offers_b @ offers_c"
    by simp
next
  assume "length offers_b = 5 \<and> length offers_c = 7"
  then show "length (collect_completed []
                      [(pair_a, Inl e), (pair_b, Inr offers_b), (pair_c, Inr offers_c)]) = 12"
    by simp
qed

text \<open>A discovery reply with two fiats and three (fiat, asset) combinations.\<close>

definition discovery_items :: "(string \<times> pyval) list list" where
  "discovery_items =
     [[(''fiatUnit'', PStr ''VES''), (''assetList'', PList [PStr ''USDT'', PStr ''BTC''])],
      [(''fiatUnit'', PStr ''ARS''), (''assetList'', PList [PStr ''USDT''])]]"

definition discovery_body :: "(string \<times> pyval) list" where
  "discovery_body = [(''code'', PStr ''000000''), (''data'', PList (map PDict discovery_items))]"

definition asset_list :: "(string \<times> pyval) list \<Rightarrow> pyval list" where
  "asset_list item = (case dict_get item ''assetList'' (PList []) of PList as \<Rightarrow> as | _ \<Rightarrow> [])"

definition discovery_world :: world where
  "discovery_world = quiet_world (\<lambda>k. Response 200 (Some (PDict discovery_body)))"

definition failing_world :: world where
  "failing_world = quiet_world (\<lambda>k. Failed RequestException)"

lemma discovery_world_facts:
  "0 < tokens_per_second (limiter discovery_world)"
  "replies discovery_world (length (sent discovery_world)) = Response 200 (Some (PDict discovery_body))"
  "\<not> (400 \<le> (200::nat) \<and> (200::nat) < 600)"
  by (simp_all add: discovery_world_def quiet_world_def rate_limiter_init_def)

lemma discovery_world_pairs:
  "fst (get_all_trading_pairs default_settings discovery_world) =
     Inr [trading_pair (PStr ''VES'') (PStr ''USDT'') ''BUY'',
          trading_pair (PStr ''VES'') (PStr ''USDT'') ''SELL'',
          trading_pair (PStr ''VES'') (PStr ''BTC'') ''BUY'',
          trading_pair (PStr ''VES'') (PStr ''BTC'') ''SELL'',
          trading_pair (PStr ''ARS'') (PStr ''USDT'') ''BUY'',
          trading_pair (PStr ''ARS'') (PStr ''USDT'') ''SELL'']"
  unfolding get_all_trading_pairs_result [OF discovery_world_facts(1)] discovery_world_facts(2)
  by (simp add: raise_for_status_def response_json_def ebind_def pairs_of_body_def
        discovery_body_def discovery_items_def dict_get_def item_pairs_def asset_pairs_def)

theorem discovery_soft_failure_or_expansion_witness:
  "0 < tokens_per_second (limiter discovery_world) \<and>
   replies discovery_world (length (sent discovery_world)) = Response 200 (Some (PDict discovery_body)) \<and>
   dict_get discovery_body ''code'' PNone = PStr ''000000'' \<and>
   fst (get_all_trading_pairs default_settings discovery_world) =
     Inr [trading_pair (PStr ''VES'') (PStr ''USDT'') ''BUY'',
          trading_pair (PStr ''VES'') (PStr ''USDT'') ''SELL'',
          trading_pair (PStr ''VES'') (PStr ''BTC'') ''BUY'',
          trading_pair (PStr ''VES'') (PStr ''BTC'') ''SELL'',
          trading_pair (PStr ''ARS'') (PStr ''USDT'') ''BUY'',
          trading_pair (PStr ''ARS'') (PStr ''USDT'') ''SELL'']"
proof -
  have c: "dict_get discovery_body ''code'' PNone = PStr ''000000''"
    by (simp add: discovery_body_def dict_get_def)
  have d: "dict_get discovery_body ''data'' (PList []) = PList (map PDict discovery_items)"
    by (simp add: discovery_body_def dict_get_def)
  have a: "\<forall>item \<in> set discovery_items. dict_get item ''assetList'' (PList []) = PList (asset_list item)"
    by (simp add: discovery_items_def asset_list_def dict_get_def)
  note t = discovery_soft_failure_or_expansion [OF discovery_world_facts, of default_settings
             discovery_items asset_list]
  from t [THEN conjunct2, rule_format, OF conjI [OF c conjI [OF d a]], THEN conjunct1]
  have "fst (get_all_trading_pairs default_settings discovery_world) =
     Inr [trading_pair (PStr ''VES'') (PStr ''USDT'') ''BUY'',
          trading_pair (PStr ''VES'') (PStr ''USDT'') ''SELL'',
          trading_pair (PStr ''VES'') (PStr ''BTC'') ''BUY'',
          trading_pair (PStr ''VES'') (PStr ''BTC'') ''SELL'',
          trading_pair (PStr ''ARS'') (PStr ''USDT'') ''BUY'',
          trading_pair (PStr ''ARS'') (PStr ''USDT'') ''SELL'']"
    by (simp add: discovery_items_def asset_list_def dict_get_def asset_pairs_def)
  with discovery_world_facts(1,2) c show ?thesis by (intro conjI)
qed

theorem discovery_never_raises_witness:
  "0 < tokens_per_second (limiter failing_world) \<and>
   request_fails (replies failing_world (length (sent failing_world))) \<and>
   fst (get_all_trading_pairs default_settings failing_world) = Inr [] \<and>
   fst (extract_all_offers default_settings (\<lambda>pairs. []) failing_world) = Inr []"
proof -
  have p: "0 < tokens_per_second (limiter failing_world)"
    by (simp add: failing_world_def quiet_world_def rate_limiter_init_def)
  have f: "request_fails (replies failing_world (length (sent failing_world)))"
    by (simp add: failing_world_def quiet_world_def)
  note t = discovery_never_raises [OF p, of default_settings "\<lambda>pairs. []"]
  from t f have g: "fst (get_all_trading_pairs default_settings failing_world) = Inr []"
    by blast
  with t have "fst (extract_all_offers default_settings (\<lambda>pairs. []) failing_world) = Inr []"
    by blast
  with p f g show ?thesis by (intro conjI)
qed

text \<open>
  A run of the pool over the six discovered pairs in which the first task to complete
  raises, two return five and seven offers, and the others return nothing.
\<close>

definition pool_run :: "pyval list \<Rightarrow> (pyval \<times> (pyexc + pyval list)) list" where
  "pool_run pairs =
     zip (rev pairs)
       [Inl RequestException, Inr (replicate 5 (PDict [])), Inr (replicate 7 (PDict [])),
        Inr [], Inr [], Inr []]"

theorem extract_all_offers_isolates_failures_witness:
  "0 < tokens_per_second (limiter discovery_world) \<and>
   (\<exists>offers. fst (extract_all_offers default_settings pool_run discovery_world) = Inr offers \<and>
              length offers = 12)"
proof -
  from extract_all_offers_isolates_failures [OF discovery_world_facts(1), of default_settings pool_run,
         THEN conjunct1] discovery_world_pairs
  have "\<exists>offers. fst (extract_all_offers default_settings pool_run discovery_world) = Inr offers \<and>
              length offers = 12"
    by (auto simp: pool_run_def)
  with discovery_world_facts(1) show ?thesis by (intro conjI)
qed

section \<open>The warehouse (models.py, db.py)\<close>

text \<open>
  The rows of the six tables, with the columns the loader writes. Surrogate keys are
  natural numbers drawn from a sequence per table; timestamps are readings of
  \<^verbatim>\<open>datetime.utcnow()\<close>, here natural numbers. Columns that receive a value of the offer
  dictionary unchanged hold that value.
\<close>

record dim_crypto =
  crypto_id :: nat
  symbol :: string
  name :: string
  binance_asset_code :: string

record dim_fiat =
  fiat_id :: nat
  currency_code :: string
  currency_name :: string

record dim_payment_method =
  payment_method_id :: nat
  method_code :: string
  method_name :: pyval

record dim_advertiser =
  advertiser_sk :: nat
  advertiser_id :: string
  nickname :: pyval
  is_merchant :: bool
  registration_days :: int
  effective_date :: nat
  expiration_date :: "nat option"
  is_current :: bool

record fact_offer =
  offer_id :: nat
  offer_external_id :: pyval
  batch_id :: string
  extraction_timestamp :: nat
  fo_crypto_id :: nat
  fo_fiat_id :: nat
  fo_advertiser_sk :: nat
  trade_type :: pyval
  price :: pyval
  available_amount :: pyval
  min_limit :: pyval
  max_limit :: pyval
  completion_rate :: pyval
  total_orders_count :: pyval
  terms_conditions :: pyval
  is_available :: bool

record fact_offer_payment_method =
  offer_payment_id :: nat
  pm_offer_id :: nat
  pm_extraction_timestamp :: nat
  pm_payment_method_id :: nat

record warehouse =
  dim_cryptocurrencies :: "dim_crypto list"
  dim_fiat_currencies :: "dim_fiat list"
  dim_payment_methods :: "dim_payment_method list"
  dim_advertisers :: "dim_advertiser list"
  fact_offers :: "fact_offer list"
  fact_offer_payment_methods :: "fact_offer_payment_method list"

datatype session_event = Opened | Committed | RolledBack | Closed

text \<open>
  The state of the loading side of the process: the attributes of the one \<^verbatim>\<open>DataLoader\<close>
  (its counter and its four caches, which live as long as the process), and the database
  as one writer sees it. \<open>committed\<close> is what is durably stored; \<open>working\<close> is what the open
  transaction sees (the committed rows and the rows flushed so far); \<open>pending\<close> holds the
  bridge objects added to the session and not yet flushed (offer id, timestamp, payment
  method id). The sequences are not transactional, as in PostgreSQL: a rollback does not
  give numbers back. Any round trip to the database may raise: \<open>faults\<close> says what the k-th
  round trip raises, if anything, so that constraint violations and lost connections are
  covered without a model of their causes. \<open>utc_clock\<close> gives the successive readings of
  \<^verbatim>\<open>datetime.utcnow()\<close>, and \<open>events\<close> records what was done to sessions.
\<close>

record loader_state =
  processed_offers :: nat
  fiat_cache :: "string \<rightharpoonup> nat"
  crypto_cache :: "string \<rightharpoonup> nat"
  payment_method_cache :: "string \<rightharpoonup> nat"
  advertiser_cache :: "string \<rightharpoonup> nat"
  committed :: warehouse
  working :: warehouse
  pending :: "(nat \<times> nat \<times> nat) list"
  crypto_seq :: nat
  fiat_seq :: nat
  payment_method_seq :: nat
  advertiser_seq :: nat
  offer_seq :: nat
  offer_payment_seq :: nat
  faults :: "nat \<Rightarrow> pyexc option"
  db_ops :: nat
  utc_clock :: "nat \<Rightarrow> nat"
  utc_calls :: nat
  events :: "session_event list"

text \<open>Sequencing of actions on the state that may raise, and a \<^verbatim>\<open>for\<close> loop of such actions.\<close>

definition sbind ::
  "(loader_state \<Rightarrow> (pyexc + 'a) \<times> loader_state) \<Rightarrow>
   ('a \<Rightarrow> loader_state \<Rightarrow> (pyexc + 'b) \<times> loader_state) \<Rightarrow>
   loader_state \<Rightarrow> (pyexc + 'b) \<times> loader_state" where
  "sbind m f s = (case m s of (Inl e, s1) \<Rightarrow> (Inl e, s1) | (Inr a, s1) \<Rightarrow> f a s1)"

definition pure_step :: "pyexc + 'a \<Rightarrow> loader_state \<Rightarrow> (pyexc + 'a) \<times> loader_state" where
  "pure_step r s = (r, s)"

fun for_each ::
  "('a \<Rightarrow> loader_state \<Rightarrow> (pyexc + unit) \<times> loader_state) \<Rightarrow> 'a list \<Rightarrow>
   loader_state \<Rightarrow> (pyexc + unit) \<times> loader_state" where
  "for_each body [] s = (Inr (), s)"
| "for_each body (x # xs) s =
     (case body x s of (Inl e, s1) \<Rightarrow> (Inl e, s1) | (Inr u, s1) \<Rightarrow> for_each body xs s1)"

text \<open>One round trip to the database: it raises what \<open>faults\<close> says for it.\<close>

definition round_trip :: "loader_state \<Rightarrow> (pyexc + unit) \<times> loader_state" where
  "round_trip s =
     (case faults s (db_ops s) of
        None \<Rightarrow> (Inr (), s\<lparr>db_ops := db_ops s + 1\<rparr>)
      | Some e \<Rightarrow> (Inl e, s\<lparr>db_ops := db_ops s + 1\<rparr>))"

text \<open>\<^verbatim>\<open>datetime.utcnow()\<close>.\<close>

definition utcnow :: "loader_state \<Rightarrow> (pyexc + nat) \<times> loader_state" where
  "utcnow s = (Inr (utc_clock s (utc_calls s)), s\<lparr>utc_calls := utc_calls s + 1\<rparr>)"

text \<open>
  \<^verbatim>\<open>session.query(Model).filter_by(...).first()\<close>: the first row of the table, as the
  transaction sees it, that satisfies the filter. The session does not flush before a
  query (\<^verbatim>\<open>autoflush=False\<close>).
\<close>

definition query_first ::
  "(warehouse \<Rightarrow> 'r list) \<Rightarrow> ('r \<Rightarrow> bool) \<Rightarrow> loader_state \<Rightarrow> (pyexc + 'r option) \<times> loader_state" where
  "query_first table flt s =
     (case round_trip s of
        (Inl e, s1) \<Rightarrow> (Inl e, s1)
      | (Inr u, s1) \<Rightarrow> (Inr (find flt (table (working s1))), s1))"

text \<open>
  The bridge rows a flush writes for the pending bridge objects, numbered from the
  sequence.
\<close>

fun bridge_rows :: "nat \<Rightarrow> (nat \<times> nat \<times> nat) list \<Rightarrow> fact_offer_payment_method list" where
  "bridge_rows k [] = []"
| "bridge_rows k ((oid, ts, pmid) # rest) =
     \<lparr>offer_payment_id = k, pm_offer_id = oid, pm_extraction_timestamp = ts,
      pm_payment_method_id = pmid\<rparr> # bridge_rows (k + 1) rest"

text \<open>\<^verbatim>\<open>session.flush()\<close>: one round trip that writes the pending objects.\<close>

definition session_flush :: "loader_state \<Rightarrow> (pyexc + unit) \<times> loader_state" where
  "session_flush s =
     (case round_trip s of
        (Inl e, s1) \<Rightarrow> (Inl e, s1)
      | (Inr u, s1) \<Rightarrow>
          (Inr (),
           s1\<lparr>working := (working s1)\<lparr>fact_offer_payment_methods :=
                  fact_offer_payment_methods (working s1) @
                  bridge_rows (offer_payment_seq s1) (pending s1)\<rparr>,
              offer_payment_seq := offer_payment_seq s1 + length (pending s1),
              pending := []\<rparr>))"

text \<open>
  \<^verbatim>\<open>session.add(obj); session.flush(); obj.<id>\<close> for a new row of each keyed table: the flush
  writes the row with the next number of its sequence, which is the identifier read back.
\<close>

definition add_flush_crypto :: "string \<Rightarrow> loader_state \<Rightarrow> (pyexc + nat) \<times> loader_state" where
  "add_flush_crypto sy s =
     (case session_flush s of
        (Inl e, s1) \<Rightarrow> (Inl e, s1)
      | (Inr u, s1) \<Rightarrow>
          (Inr (crypto_seq s1),
           s1\<lparr>working := (working s1)\<lparr>dim_cryptocurrencies :=
                  dim_cryptocurrencies (working s1) @
                  [\<lparr>crypto_id = crypto_seq s1, symbol = sy, name = sy,
                    binance_asset_code = sy\<rparr>]\<rparr>,
              crypto_seq := crypto_seq s1 + 1\<rparr>))"

definition add_flush_fiat :: "string \<Rightarrow> loader_state \<Rightarrow> (pyexc + nat) \<times> loader_state" where
  "add_flush_fiat code s =
     (case session_flush s of
        (Inl e, s1) \<Rightarrow> (Inl e, s1)
      | (Inr u, s1) \<Rightarrow>
          (Inr (fiat_seq s1),
           s1\<lparr>working := (working s1)\<lparr>dim_fiat_currencies :=
                  dim_fiat_currencies (working s1) @
                  [\<lparr>fiat_id = fiat_seq s1, currency_code = code, currency_name = code\<rparr>]\<rparr>,
              fiat_seq := fiat_seq s1 + 1\<rparr>))"

definition add_flush_payment_method ::
  "string \<Rightarrow> pyval \<Rightarrow> loader_state \<Rightarrow> (pyexc + nat) \<times> loader_state" where
  "add_flush_payment_method code mname s =
     (case session_flush s of
        (Inl e, s1) \<Rightarrow> (Inl e, s1)
      | (Inr u, s1) \<Rightarrow>
          (Inr (payment_method_seq s1),
           s1\<lparr>working := (working s1)\<lparr>dim_payment_methods :=
                  dim_payment_methods (working s1) @
                  [\<lparr>payment_method_id = payment_method_seq s1, method_code = code,
                    method_name = mname\<rparr>]\<rparr>,
              payment_method_seq := payment_method_seq s1 + 1\<rparr>))"

definition add_flush_advertiser ::
  "string \<Rightarrow> pyval \<Rightarrow> nat \<Rightarrow> loader_state \<Rightarrow> (pyexc + nat) \<times> loader_state" where
  "add_flush_advertiser adv_id nick today s =
     (case session_flush s of
        (Inl e, s1) \<Rightarrow> (Inl e, s1)
      | (Inr u, s1) \<Rightarrow>
          (Inr (advertiser_seq s1),
           s1\<lparr>working := (working s1)\<lparr>dim_advertisers :=
                  dim_advertisers (working s1) @
                  [\<lparr>advertiser_sk = advertiser_seq s1, advertiser_id = adv_id, nickname = nick,
                    is_merchant = False, registration_days = 0, effective_date = today,
                    expiration_date = None, is_current = True\<rparr>]\<rparr>,
              advertiser_seq := advertiser_seq s1 + 1\<rparr>))"

definition add_flush_fact :: "fact_offer \<Rightarrow> loader_state \<Rightarrow> (pyexc + nat) \<times> loader_state" where
  "add_flush_fact new_fact s =
     (case session_flush s of
        (Inl e, s1) \<Rightarrow> (Inl e, s1)
      | (Inr u, s1) \<Rightarrow>
          (Inr (offer_seq s1),
           s1\<lparr>working := (working s1)\<lparr>fact_offers :=
                  fact_offers (working s1) @ [new_fact\<lparr>offer_id := offer_seq s1\<rparr>]\<rparr>,
              offer_seq := offer_seq s1 + 1\<rparr>))"

text \<open>\<^verbatim>\<open>session.add(offer_pm)\<close>: the bridge object waits for the next flush.\<close>

definition add_bridge :: "nat \<Rightarrow> nat \<Rightarrow> nat \<Rightarrow> loader_state \<Rightarrow> (pyexc + unit) \<times> loader_state" where
  "add_bridge oid ts pmid s = (Inr (), s\<lparr>pending := pending s @ [(oid, ts, pmid)]\<rparr>)"

text \<open>
  The session of \<^verbatim>\<open>DatabaseManager.get_session\<close>: opening starts a transaction on the
  committed rows; a commit flushes what is pending and makes the transaction's rows the
  committed ones; a rollback forgets them; closing releases the session.
\<close>

definition session_open :: "loader_state \<Rightarrow> loader_state" where
  "session_open s = s\<lparr>working := committed s, pending := [], events := events s @ [Opened]\<rparr>"

definition session_commit :: "loader_state \<Rightarrow> (pyexc + unit) \<times> loader_state" where
  "session_commit s =
     (case session_flush s of
        (Inl e, s1) \<Rightarrow> (Inl e, s1)
      | (Inr u, s1) \<Rightarrow> (Inr (), s1\<lparr>committed := working s1, events := events s1 @ [Committed]\<rparr>))"

definition session_rollback :: "loader_state \<Rightarrow> loader_state" where
  "session_rollback s = s\<lparr>working := committed s, pending := [], events := events s @ [RolledBack]\<rparr>"

definition session_close :: "loader_state \<Rightarrow> loader_state" where
  "session_close s = s\<lparr>events := events s @ [Closed]\<rparr>"

text \<open>
  \<^verbatim>\<open>with db_manager.get_session() as session: body\<close>. The body runs in the open session;
  if it returns, the session commits; an exception of the body or of the commit rolls the
  transaction back and is raised again; the session is closed on every path. The rollback
  and the closing are taken not to raise themselves.
\<close>

definition with_session ::
  "(loader_state \<Rightarrow> (pyexc + unit) \<times> loader_state) \<Rightarrow> loader_state \<Rightarrow> (pyexc + unit) \<times> loader_state" where
  "with_session body s =
     (case body (session_open s) of
        (Inl e, s1) \<Rightarrow> (Inl e, session_close (session_rollback s1))
      | (Inr u, s1) \<Rightarrow>
          (case session_commit s1 of
             (Inl e, s2) \<Rightarrow> (Inl e, session_close (session_rollback s2))
           | (Inr u, s2) \<Rightarrow> (Inr (), session_close s2)))"

section \<open>The loader (loader.py)\<close>

text \<open>
  A natural key as the get-or-create functions meet it. The caches are dictionaries and
  the key columns are \<^verbatim>\<open>varchar\<close>, \<^verbatim>\<open>NOT NULL\<close>: a list or a dictionary is unhashable and
  raises \<^verbatim>\<open>TypeError\<close> at the cache test; any other value that is not a string misses the
  cache (a string equals strings only) and is refused by the database, at the query for a
  number or a boolean and at the flush for \<^verbatim>\<open>None\<close>. Only strings are ever cached or stored.
\<close>

fun natural_key :: "pyval \<Rightarrow> pyexc + string" where
  "natural_key (PStr k) = Inr k"
| "natural_key (PList xs) = Inl TypeError"
| "natural_key (PDict kvs) = Inl TypeError"
| "natural_key v = Inl (DatabaseError ''natural key is not a string'')"

text \<open>
  \<^verbatim>\<open>_get_or_create_crypto\<close>: the cache first; then the row with that symbol; else a new row,
  flushed for its identifier. Either way the identifier is cached.
\<close>

definition get_or_create_crypto :: "pyval \<Rightarrow> loader_state \<Rightarrow> (pyexc + nat) \<times> loader_state" where
  "get_or_create_crypto key s =
     (case natural_key key of
        Inl e \<Rightarrow> (Inl e, s)
      | Inr sy \<Rightarrow>
          (case crypto_cache s sy of
             Some i \<Rightarrow> (Inr i, s)
           | None \<Rightarrow>
               (case query_first dim_cryptocurrencies (\<lambda>r. symbol r = sy) s of
                  (Inl e, s1) \<Rightarrow> (Inl e, s1)
                | (Inr (Some crypto), s1) \<Rightarrow>
                    (Inr (crypto_id crypto),
                     s1\<lparr>crypto_cache := (crypto_cache s1)(sy \<mapsto> crypto_id crypto)\<rparr>)
                | (Inr None, s1) \<Rightarrow>
                    (case add_flush_crypto sy s1 of
                       (Inl e, s2) \<Rightarrow> (Inl e, s2)
                     | (Inr i, s2) \<Rightarrow> (Inr i, s2\<lparr>crypto_cache := (crypto_cache s2)(sy \<mapsto> i)\<rparr>)))))"

text \<open>\<^verbatim>\<open>_get_or_create_fiat\<close>, of the same shape on the currency code.\<close>

definition get_or_create_fiat :: "pyval \<Rightarrow> loader_state \<Rightarrow> (pyexc + nat) \<times> loader_state" where
  "get_or_create_fiat key s =
     (case natural_key key of
        Inl e \<Rightarrow> (Inl e, s)
      | Inr code \<Rightarrow>
          (case fiat_cache s code of
             Some i \<Rightarrow> (Inr i, s)
           | None \<Rightarrow>
               (case query_first dim_fiat_currencies (\<lambda>r. currency_code r = code) s of
                  (Inl e, s1) \<Rightarrow> (Inl e, s1)
                | (Inr (Some fiat), s1) \<Rightarrow>
                    (Inr (fiat_id fiat), s1\<lparr>fiat_cache := (fiat_cache s1)(code \<mapsto> fiat_id fiat)\<rparr>)
                | (Inr None, s1) \<Rightarrow>
                    (case add_flush_fiat code s1 of
                       (Inl e, s2) \<Rightarrow> (Inl e, s2)
                     | (Inr i, s2) \<Rightarrow> (Inr i, s2\<lparr>fiat_cache := (fiat_cache s2)(code \<mapsto> i)\<rparr>)))))"

text \<open>\<^verbatim>\<open>_get_or_create_payment_method\<close>: keyed by the method code; the name only fills a new row.\<close>

definition get_or_create_payment_method ::
  "pyval \<Rightarrow> pyval \<Rightarrow> loader_state \<Rightarrow> (pyexc + nat) \<times> loader_state" where
  "get_or_create_payment_method key mname s =
     (case natural_key key of
        Inl e \<Rightarrow> (Inl e, s)
      | Inr code \<Rightarrow>
          (case payment_method_cache s code of
             Some i \<Rightarrow> (Inr i, s)
           | None \<Rightarrow>
               (case query_first dim_payment_methods (\<lambda>r. method_code r = code) s of
                  (Inl e, s1) \<Rightarrow> (Inl e, s1)
                | (Inr (Some pm), s1) \<Rightarrow>
                    (Inr (payment_method_id pm),
                     s1\<lparr>payment_method_cache := (payment_method_cache s1)(code \<mapsto> payment_method_id pm)\<rparr>)
                | (Inr None, s1) \<Rightarrow>
                    (case add_flush_payment_method code mname s1 of
                       (Inl e, s2) \<Rightarrow> (Inl e, s2)
                     | (Inr i, s2) \<Rightarrow>
                         (Inr i, s2\<lparr>payment_method_cache := (payment_method_cache s2)(code \<mapsto> i)\<rparr>)))))"

text \<open>
  \<^verbatim>\<open>_get_or_create_advertiser\<close>: the cache; then the row of that advertiser id that is
  current; else a new current row whose effective date is \<^verbatim>\<open>datetime.utcnow()\<close>, read while
  the new object is built, before it is added and flushed.
\<close>

definition get_or_create_advertiser ::
  "pyval \<Rightarrow> pyval \<Rightarrow> loader_state \<Rightarrow> (pyexc + nat) \<times> loader_state" where
  "get_or_create_advertiser key nick s =
     (case natural_key key of
        Inl e \<Rightarrow> (Inl e, s)
      | Inr adv_id \<Rightarrow>
          (case advertiser_cache s adv_id of
             Some i \<Rightarrow> (Inr i, s)
           | None \<Rightarrow>
               (case query_first dim_advertisers
                       (\<lambda>r. advertiser_id r = adv_id \<and> is_current r = True) s of
                  (Inl e, s1) \<Rightarrow> (Inl e, s1)
                | (Inr (Some advertiser), s1) \<Rightarrow>
                    (Inr (advertiser_sk advertiser),
                     s1\<lparr>advertiser_cache := (advertiser_cache s1)(adv_id \<mapsto> advertiser_sk advertiser)\<rparr>)
                | (Inr None, s1) \<Rightarrow>
                    (case sbind utcnow (add_flush_advertiser adv_id nick) s1 of
                       (Inl e, s2) \<Rightarrow> (Inl e, s2)
                     | (Inr i, s2) \<Rightarrow>
                         (Inr i, s2\<lparr>advertiser_cache := (advertiser_cache s2)(adv_id \<mapsto> i)\<rparr>)))))"

text \<open>
  The call \<^verbatim>\<open>self._get_or_create_advertiser(session, offer['advertiser']['id'],
  offer['advertiser']['nickname'])\<close>: both arguments are read before the call.
\<close>

definition resolve_advertiser :: "pyval \<Rightarrow> loader_state \<Rightarrow> (pyexc + nat) \<times> loader_state" where
  "resolve_advertiser offer =
     sbind (pure_step (ebind (py_getitem offer ''advertiser'') (\<lambda>a. py_getitem a ''id''))) (\<lambda>adv_id.
     sbind (pure_step (ebind (py_getitem offer ''advertiser'') (\<lambda>a. py_getitem a ''nickname''))) (\<lambda>nick.
       get_or_create_advertiser adv_id nick))"

text \<open>
  The call \<^verbatim>\<open>self._get_or_create_payment_method(session, pm['identifier'],
  pm['tradeMethodName'])\<close>.
\<close>

definition resolve_payment_method :: "pyval \<Rightarrow> loader_state \<Rightarrow> (pyexc + nat) \<times> loader_state" where
  "resolve_payment_method pm =
     sbind (pure_step (py_getitem pm ''identifier'')) (\<lambda>code.
     sbind (pure_step (py_getitem pm ''tradeMethodName'')) (\<lambda>mname.
       get_or_create_payment_method code mname))"

text \<open>The body of the loop of \<^verbatim>\<open>_load_dimensions\<close>, and the loop.\<close>

definition load_dimensions_of :: "pyval \<Rightarrow> loader_state \<Rightarrow> (pyexc + unit) \<times> loader_state" where
  "load_dimensions_of offer =
     sbind (pure_step (py_getitem offer ''asset'')) (\<lambda>asset.
     sbind (get_or_create_crypto asset) (\<lambda>crypto.
     sbind (pure_step (py_getitem offer ''fiat'')) (\<lambda>fiat.
     sbind (get_or_create_fiat fiat) (\<lambda>fiat_sk.
     sbind (resolve_advertiser offer) (\<lambda>adv_sk.
     sbind (pure_step (ebind (py_getitem offer ''payment_methods'') py_iter)) (\<lambda>pms.
       for_each (\<lambda>pm. sbind (resolve_payment_method pm) (\<lambda>pm_id. pure_step (Inr ()))) pms))))))"

definition load_dimensions :: "pyval list \<Rightarrow> loader_state \<Rightarrow> (pyexc + unit) \<times> loader_state" where
  "load_dimensions offers = for_each load_dimensions_of offers"

text \<open>
  The arguments of \<^verbatim>\<open>FactOffers(...)\<close>, read from the offer in the order of the source; the
  row's own identifier is set by the flush.
\<close>

definition build_fact :: "string \<Rightarrow> nat \<Rightarrow> nat \<Rightarrow> nat \<Rightarrow> nat \<Rightarrow> pyval \<Rightarrow> pyexc + fact_offer" where
  "build_fact batch ts crypto fiat adv offer =
     ebind (py_getitem offer ''id'') (\<lambda>ext_id.
     ebind (py_getitem offer ''trade_type'') (\<lambda>tt.
     ebind (py_getitem offer ''price'') (\<lambda>pr.
     ebind (py_getitem offer ''available_amount'') (\<lambda>amount.
     ebind (py_getitem offer ''min_limit'') (\<lambda>lo.
     ebind (py_getitem offer ''max_limit'') (\<lambda>hi.
     ebind (ebind (py_getitem offer ''advertiser'') (\<lambda>a. py_getitem a ''completion_rate'')) (\<lambda>cr.
     ebind (ebind (py_getitem offer ''advertiser'') (\<lambda>a. py_getitem a ''total_orders'')) (\<lambda>orders.
     ebind (py_get offer ''terms'' PNone) (\<lambda>terms.
       Inr \<lparr>offer_id = 0, offer_external_id = ext_id, batch_id = batch,
            extraction_timestamp = ts, fo_crypto_id = crypto, fo_fiat_id = fiat,
            fo_advertiser_sk = adv, trade_type = tt, price = pr, available_amount = amount,
            min_limit = lo, max_limit = hi, completion_rate = cr, total_orders_count = orders,
            terms_conditions = terms, is_available = True\<rparr>)))))))))"

text \<open>
  The body of the loop of \<^verbatim>\<open>_load_facts\<close>: the three dimension identifiers, the fact row
  and its flush, then one bridge object per payment method.
\<close>

definition load_fact :: "string \<Rightarrow> nat \<Rightarrow> pyval \<Rightarrow> loader_state \<Rightarrow> (pyexc + unit) \<times> loader_state" where
  "load_fact batch extraction_ts offer =
     sbind (pure_step (py_getitem offer ''asset'')) (\<lambda>asset.
     sbind (get_or_create_crypto asset) (\<lambda>crypto.
     sbind (pure_step (py_getitem offer ''fiat'')) (\<lambda>fiat.
     sbind (get_or_create_fiat fiat) (\<lambda>fiat_sk.
     sbind (resolve_advertiser offer) (\<lambda>adv_sk.
     sbind (pure_step (build_fact batch extraction_ts crypto fiat_sk adv_sk offer)) (\<lambda>new_fact.
     sbind (add_flush_fact new_fact) (\<lambda>fact_offer_id.
     sbind (pure_step (ebind (py_getitem offer ''payment_methods'') py_iter)) (\<lambda>pms.
       for_each (\<lambda>pm. sbind (resolve_payment_method pm) (\<lambda>pm_id.
                        add_bridge fact_offer_id extraction_ts pm_id)) pms))))))))"

definition load_facts :: "pyval list \<Rightarrow> string \<Rightarrow> loader_state \<Rightarrow> (pyexc + unit) \<times> loader_state" where
  "load_facts offers batch =
     sbind utcnow (\<lambda>extraction_ts. for_each (load_fact batch extraction_ts) offers)"

text \<open>The \<^verbatim>\<open>try\<close> block of \<^verbatim>\<open>load_offers\<close>; its handler logs and raises again.\<close>

definition load_batch :: "pyval list \<Rightarrow> string \<Rightarrow> loader_state \<Rightarrow> (pyexc + unit) \<times> loader_state" where
  "load_batch offers batch =
     sbind (load_dimensions offers) (\<lambda>u.
     sbind (load_facts offers batch) (\<lambda>u s.
       (Inr (), s\<lparr>processed_offers := processed_offers s + length offers\<rparr>)))"

text \<open>\<^verbatim>\<open>load_offers\<close>: nothing at all for an empty list, else the batch in one session.\<close>

definition load_offers :: "pyval list \<Rightarrow> string \<Rightarrow> loader_state \<Rightarrow> (pyexc + unit) \<times> loader_state" where
  "load_offers offers batch s =
     (if offers = [] then (Inr (), s) else with_session (load_batch offers batch) s)"

section \<open>Properties of the loader\<close>

text \<open>An action keeps an invariant of the state, whether it returns or raises.\<close>

definition preserves :: "(loader_state \<Rightarrow> bool) \<Rightarrow> (loader_state \<Rightarrow> 'a \<times> loader_state) \<Rightarrow> bool" where
  "preserves Q m \<longleftrightarrow> (\<forall>s. Q s \<longrightarrow> Q (snd (m s)))"

lemma preservesD: "preserves Q m \<Longrightarrow> Q s \<Longrightarrow> Q (snd (m s))"
  by (simp add: preserves_def)

lemma preserves_pure_step: "preserves Q (pure_step r)"
  by (simp add: preserves_def pure_step_def)

lemma preserves_sbind:
  assumes "preserves Q m" and "\<And>a. preserves Q (f a)"
  shows "preserves Q (sbind m f)"
  unfolding preserves_def
proof (intro allI impI)
  fix s assume q: "Q s"
  obtain r s1 where m: "m s = (r, s1)" by force
  from preservesD [OF assms(1) q] m have q1: "Q s1" by simp
  show "Q (snd (sbind m f s))"
  proof (cases r)
    case (Inl e) with m q1 show ?thesis by (simp add: sbind_def)
  next
    case (Inr a)
    with m preservesD [OF assms(2) q1, of a] show ?thesis by (simp add: sbind_def)
  qed
qed

lemma preserves_for_each:
  assumes "\<And>x. preserves Q (body x)"
  shows "preserves Q (for_each body xs)"
  unfolding preserves_def
proof (induction xs)
  case Nil show ?case by simp
next
  case (Cons x xs)
  show ?case
  proof (intro allI impI)
    fix s assume q: "Q s"
    obtain r s1 where b: "body x s = (r, s1)" by force
    from preservesD [OF assms q, of x] b have q1: "Q s1" by simp
    show "Q (snd (for_each body (x # xs) s))"
      using b q1 Cons.IH by (cases r) simp_all
  qed
qed

text \<open>An invariant kept by the leaf operations of a batch is kept by the batch.\<close>

lemma load_batch_preserves:
  assumes c: "\<And>k. preserves Q (get_or_create_crypto k)"
    and f: "\<And>k. preserves Q (get_or_create_fiat k)"
    and a: "\<And>k n. preserves Q (get_or_create_advertiser k n)"
    and p: "\<And>k n. preserves Q (get_or_create_payment_method k n)"
    and t: "\<And>x. preserves Q (add_flush_fact x)"
    and b: "\<And>x y z. preserves Q (add_bridge x y z)"
    and u: "preserves Q utcnow"
    and n: "\<And>s k. Q s \<Longrightarrow> Q (s\<lparr>processed_offers := k\<rparr>)"
  shows "preserves Q (load_batch offers batch)"
proof -
  have ra: "\<And>offer. preserves Q (resolve_advertiser offer)"
    unfolding resolve_advertiser_def
    by (intro preserves_sbind preserves_pure_step a)
  have rp: "\<And>pm. preserves Q (resolve_payment_method pm)"
    unfolding resolve_payment_method_def
    by (intro preserves_sbind preserves_pure_step p)
  have d: "preserves Q (load_dimensions offers)"
    unfolding load_dimensions_def load_dimensions_of_def
    by (intro preserves_for_each preserves_sbind preserves_pure_step c f ra rp)
  have l: "preserves Q (load_facts offers batch)"
    unfolding load_facts_def load_fact_def
    by (intro preserves_for_each preserves_sbind preserves_pure_step c f ra rp t b u)
  have k: "preserves Q (\<lambda>s. (Inr () :: pyexc + unit, s\<lparr>processed_offers := processed_offers s + length offers\<rparr>))"
    by (simp add: preserves_def n)
  show ?thesis
    unfolding load_batch_def
    by (intro preserves_sbind d l k)
qed


subsection \<open>What a batch leaves alone\<close>

lemmas db_defs =
  query_first_def round_trip_def session_flush_def utcnow_def add_bridge_def
  add_flush_crypto_def add_flush_fiat_def add_flush_payment_method_def
  add_flush_advertiser_def add_flush_fact_def sbind_def

lemmas leaf_splits = sum.splits option.splits prod.splits

lemma durable_leaves:
  "preserves (\<lambda>s. committed s = c \<and> events s = ev) (get_or_create_crypto k)"
  "preserves (\<lambda>s. committed s = c \<and> events s = ev) (get_or_create_fiat k)"
  "preserves (\<lambda>s. committed s = c \<and> events s = ev) (get_or_create_advertiser k n)"
  "preserves (\<lambda>s. committed s = c \<and> events s = ev) (get_or_create_payment_method k n)"
  "preserves (\<lambda>s. committed s = c \<and> events s = ev) (add_flush_fact x)"
  "preserves (\<lambda>s. committed s = c \<and> events s = ev) (add_bridge oid ts pmid)"
  "preserves (\<lambda>s. committed s = c \<and> events s = ev) utcnow"
  by (auto simp: preserves_def get_or_create_crypto_def get_or_create_fiat_def
        get_or_create_advertiser_def get_or_create_payment_method_def db_defs
        split: leaf_splits)

lemma load_batch_durable:
  "committed (snd (load_batch offers batch s)) = committed s \<and>
   events (snd (load_batch offers batch s)) = events s"
proof -
  have "preserves (\<lambda>t. committed t = committed s \<and> events t = events s) (load_batch offers batch)"
    by (rule load_batch_preserves) (simp_all add: durable_leaves)
  then show ?thesis by (simp add: preserves_def)
qed


subsection \<open>The session scope\<close>

lemma session_flush_durable:
  "committed (snd (session_flush s)) = committed s" "events (snd (session_flush s)) = events s"
  by (simp_all add: session_flush_def round_trip_def split: leaf_splits)

lemma with_session_raises:
  assumes "fst (with_session body s) = Inl e"
    and "committed (snd (body (session_open s))) = committed s"
    and "events (snd (body (session_open s))) = events s @ [Opened]"
  shows "committed (snd (with_session body s)) = committed s \<and>
         events (snd (with_session body s)) = events s @ [Opened, RolledBack, Closed]"
proof -
  obtain r s1 where b: "body (session_open s) = (r, s1)" by force
  obtain r2 s2 where c: "session_commit s1 = (r2, s2)" by force
  have s2: "r2 \<noteq> Inr () \<Longrightarrow> committed s2 = committed s1 \<and> events s2 = events s1"
    using c session_flush_durable [of s1]
    by (auto simp: session_commit_def split: leaf_splits)
  from assms b c s2 show ?thesis
    by (auto simp: with_session_def session_close_def session_rollback_def split: leaf_splits)
qed

lemma with_session_returns:
  assumes "fst (with_session body s) = Inr u"
    and "events (snd (body (session_open s))) = events s @ [Opened]"
  shows "events (snd (with_session body s)) = events s @ [Opened, Committed, Closed] \<and>
         committed (snd (with_session body s)) = working (snd (with_session body s))"
proof -
  obtain r s1 where b: "body (session_open s) = (r, s1)" by force
  obtain r2 s2 where c: "session_commit s1 = (r2, s2)" by force
  have s2: "r2 = Inr () \<Longrightarrow> events s2 = events s1 @ [Committed] \<and> committed s2 = working s2"
    using c session_flush_durable [of s1]
    by (auto simp: session_commit_def split: leaf_splits)
  from assms b c s2 show ?thesis
    by (auto simp: with_session_def session_close_def session_rollback_def split: leaf_splits)
qed

lemma with_session_reraises:
  assumes "fst (body (session_open s)) = Inl e"
  shows "fst (with_session body s) = Inl e"
  using assms by (cases "body (session_open s)") (simp add: with_session_def)

text \<open>
  C4. \<open>load_offers\<close> on the empty list returns with the whole state, database included,
  untouched. On a non-empty list an exception raised while dimensions are resolved or
  facts inserted is the exception \<open>load_offers\<close> raises; whenever \<open>load_offers\<close> raises, the
  committed rows are those from before the call and the session was opened, rolled back
  and closed, with no commit; and when it returns, the session was opened, committed
  exactly once and closed, the committed rows being those of the whole transaction.
\<close>

theorem load_offers_atomic:
  "load_offers [] batch s = (Inr (), s) \<and>
   (offers \<noteq> [] \<longrightarrow>
      (\<forall>e. fst (load_batch offers batch (session_open s)) = Inl e \<longrightarrow>
           fst (load_offers offers batch s) = Inl e) \<and>
      (\<forall>e. fst (load_offers offers batch s) = Inl e \<longrightarrow>
           committed (snd (load_offers offers batch s)) = committed s \<and>
           events (snd (load_offers offers batch s)) = events s @ [Opened, RolledBack, Closed]) \<and>
      (fst (load_offers offers batch s) = Inr () \<longrightarrow>
           committed (snd (load_offers offers batch s)) = working (snd (load_offers offers batch s)) \<and>
           events (snd (load_offers offers batch s)) = events s @ [Opened, Committed, Closed]))"
proof (intro conjI impI allI)
  show "load_offers [] batch s = (Inr (), s)" by (simp add: load_offers_def)
next
  fix e
  assume "offers \<noteq> []" and "fst (load_batch offers batch (session_open s)) = Inl e"
  then show "fst (load_offers offers batch s) = Inl e"
    by (simp add: load_offers_def with_session_reraises)
next
  fix e
  assume ne: "offers \<noteq> []" and r: "fst (load_offers offers batch s) = Inl e"
  have d: "committed (snd (load_batch offers batch (session_open s))) = committed s"
          "events (snd (load_batch offers batch (session_open s))) = events s @ [Opened]"
    using load_batch_durable [of offers batch "session_open s"]
    by (simp_all add: session_open_def)
  from with_session_raises [of "load_batch offers batch" s e, OF _ d] ne r
  show "committed (snd (load_offers offers batch s)) = committed s"
    and "events (snd (load_offers offers batch s)) = events s @ [Opened, RolledBack, Closed]"
    by (simp_all add: load_offers_def)
next
  assume ne: "offers \<noteq> []" and r: "fst (load_offers offers batch s) = Inr ()"
  have d: "events (snd (load_batch offers batch (session_open s))) = events s @ [Opened]"
    using load_batch_durable [of offers batch "session_open s"]
    by (simp add: session_open_def)
  from with_session_returns [of "load_batch offers batch" s "()", OF _ d] ne r
  show "committed (snd (load_offers offers batch s)) = working (snd (load_offers offers batch s))"
    and "events (snd (load_offers offers batch s)) = events s @ [Opened, Committed, Closed]"
    by (simp_all add: load_offers_def)
qed


subsection \<open>Sample states and offers\<close>

text \<open>
  A fresh process on an empty warehouse whose database never fails, an offer in the shape
  the loader reads, the offer the extractor makes of the plain record, and an offer
  without a \<^verbatim>\<open>fiat\<close> entry.
\<close>

definition empty_warehouse :: warehouse where
  "empty_warehouse =
     \<lparr>dim_cryptocurrencies = [], dim_fiat_currencies = [], dim_payment_methods = [],
      dim_advertisers = [], fact_offers = [], fact_offer_payment_methods = []\<rparr>"

definition fresh_state :: loader_state where
  "fresh_state =
     \<lparr>processed_offers = 0, fiat_cache = Map.empty, crypto_cache = Map.empty,
      payment_method_cache = Map.empty, advertiser_cache = Map.empty,
      committed = empty_warehouse, working = empty_warehouse, pending = [],
      crypto_seq = 1, fiat_seq = 1, payment_method_seq = 1, advertiser_seq = 1,
      offer_seq = 1, offer_payment_seq = 1,
      faults = (\<lambda>k. None), db_ops = 0, utc_clock = (\<lambda>k. 1000 + k), utc_calls = 0,
      events = []\<rparr>"

definition loader_offer :: "string \<Rightarrow> string \<Rightarrow> pyval" where
  "loader_offer oid adv =
     PDict [(''id'', PStr oid), (''asset'', PStr ''USDT''), (''fiat'', PStr ''VES''),
            (''advertiser'', PDict [(''id'', PStr adv), (''nickname'', PStr ''bob''),
                                   (''completion_rate'', PInt 98), (''total_orders'', PInt 10)]),
            (''payment_methods'', PList [PDict [(''identifier'', PStr ''BANK''),
                                              (''tradeMethodName'', PStr ''Bank Transfer'')]]),
            (''trade_type'', PStr ''BUY''), (''price'', PDec (Finite False 365 (- 1))),
            (''available_amount'', PDec (Finite False 100 0)),
            (''min_limit'', PDec (Finite False 10 0)), (''max_limit'', PDec (Finite False 5 3))]"

definition parsed_offer_plain :: pyval where
  "parsed_offer_plain =
     PDict
       [(''offer_external_id'', PStr ''u2''),
        (''advertiser_nickname'', PStr ''ana''),
        (''price'', PDec (Finite False 3650 (- 2))),
        (''available_amount'', PDec (Finite False 100 0)),
        (''min_limit'', PDec (Finite False 10 0)),
        (''max_limit'', PDec (Finite False 5 3)),
        (''payment_methods'', PList [PStr ''BANK'']),
        (''asset'', PStr ''USDT''),
        (''fiat'', PStr ''VES''),
        (''trade_type'', PStr ''SELL'')]"

definition offer_without_fiat :: pyval where
  "offer_without_fiat = PDict [(''id'', PStr ''o9''), (''asset'', PStr ''USDT'')]"

lemmas loader_eval =
  load_offers_def with_session_def load_batch_def load_dimensions_def load_dimensions_of_def
  load_facts_def load_fact_def build_fact_def resolve_advertiser_def resolve_payment_method_def
  get_or_create_crypto_def get_or_create_fiat_def get_or_create_advertiser_def
  get_or_create_payment_method_def db_defs pure_step_def ebind_def dict_get_def
  session_open_def session_commit_def session_rollback_def session_close_def

text \<open>
  An invariant \<open>Q\<close> of the transaction's rows that the batch and the flush keep gives a
  property \<open>R\<close> of the state after the session scope, on the rollback and the commit path.
\<close>

lemma with_session_invariant:
  assumes body: "preserves Q body" and flush: "preserves Q session_flush"
    and dur: "\<And>t. committed (snd (body t)) = committed t"
    and op: "Q (session_open s)"
    and rb: "\<And>t. Q t \<Longrightarrow> committed t = committed s \<Longrightarrow> R (session_close (session_rollback t))"
    and cm: "\<And>t. Q t \<Longrightarrow> R (session_close (t\<lparr>committed := working t, events := events t @ [Committed]\<rparr>))"
  shows "R (snd (with_session body s))"
proof -
  obtain r s1 where b: "body (session_open s) = (r, s1)" by force
  have q1: "Q s1" using preservesD [OF body op] b by simp
  have c1: "committed s1 = committed s" using dur [of "session_open s"] b by (simp add: session_open_def)
  obtain r2 s2 where f: "session_flush s1 = (r2, s2)" by force
  have q2: "Q s2" using preservesD [OF flush q1] f by simp
  have c2: "committed s2 = committed s" using session_flush_durable(1) [of s1] f c1 by simp
  show ?thesis
  proof (cases r)
    case (Inl e)
    with b rb [OF q1 c1] show ?thesis by (simp add: with_session_def)
  next
    case (Inr u)
    show ?thesis
    proof (cases r2)
      case (Inl e)
      with b Inr f rb [OF q2 c2] show ?thesis by (simp add: with_session_def session_commit_def)
    next
      case (Inr u2)
      with b \<open>r = Inr u\<close> f cm [OF q2] show ?thesis by (simp add: with_session_def session_commit_def)
    qed
  qed
qed

subsection \<open>The advertiser dimension\<close>

text \<open>
  The invariant of the advertiser dimension: among the rows marked current no advertiser
  id occurs twice, that is, at most one current row per natural advertiser id.
\<close>

definition adv_unique :: "warehouse \<Rightarrow> bool" where
  "adv_unique wh = distinct (map advertiser_id (filter is_current (dim_advertisers wh)))"

lemma adv_leaves:
  "preserves (\<lambda>s. adv_unique (working s)) (get_or_create_crypto k)"
  "preserves (\<lambda>s. adv_unique (working s)) (get_or_create_fiat k)"
  "preserves (\<lambda>s. adv_unique (working s)) (get_or_create_payment_method k n)"
  "preserves (\<lambda>s. adv_unique (working s)) (add_flush_fact x)"
  "preserves (\<lambda>s. adv_unique (working s)) (add_bridge oid ts pmid)"
  "preserves (\<lambda>s. adv_unique (working s)) utcnow"
  "preserves (\<lambda>s. adv_unique (working s)) session_flush"
  by (auto simp: preserves_def adv_unique_def get_or_create_crypto_def get_or_create_fiat_def
        get_or_create_payment_method_def db_defs
        split: leaf_splits)

lemma get_or_create_advertiser_rows:
  "dim_advertisers (working (snd (get_or_create_advertiser k nick s))) = dim_advertisers (working s) \<or>
   (\<exists>a. natural_key k = Inr a \<and> advertiser_cache s a = None \<and>
        find (\<lambda>r. advertiser_id r = a \<and> is_current r) (dim_advertisers (working s)) = None \<and>
        dim_advertisers (working (snd (get_or_create_advertiser k nick s))) =
          dim_advertisers (working s) @
          [\<lparr>advertiser_sk = advertiser_seq s, advertiser_id = a, nickname = nick,
            is_merchant = False, registration_days = 0,
            effective_date = utc_clock s (utc_calls s), expiration_date = None,
            is_current = True\<rparr>])"
  by (auto simp: get_or_create_advertiser_def db_defs split: leaf_splits)

lemma adv_unique_advertiser:
  "preserves (\<lambda>s. adv_unique (working s)) (get_or_create_advertiser k nick)"
  unfolding preserves_def
proof (intro allI impI)
  fix s :: loader_state assume u: "adv_unique (working s)"
  from get_or_create_advertiser_rows [of k nick s]
  show "adv_unique (working (snd (get_or_create_advertiser k nick s)))"
  proof
    assume "dim_advertisers (working (snd (get_or_create_advertiser k nick s))) = dim_advertisers (working s)"
    with u show ?thesis by (simp add: adv_unique_def)
  next
    assume "\<exists>a. natural_key k = Inr a \<and> advertiser_cache s a = None \<and>
        find (\<lambda>r. advertiser_id r = a \<and> is_current r) (dim_advertisers (working s)) = None \<and>
        dim_advertisers (working (snd (get_or_create_advertiser k nick s))) =
          dim_advertisers (working s) @
          [\<lparr>advertiser_sk = advertiser_seq s, advertiser_id = a, nickname = nick,
            is_merchant = False, registration_days = 0,
            effective_date = utc_clock s (utc_calls s), expiration_date = None,
            is_current = True\<rparr>]"
    then obtain a where
      n: "find (\<lambda>r. advertiser_id r = a \<and> is_current r) (dim_advertisers (working s)) = None" and
      r: "dim_advertisers (working (snd (get_or_create_advertiser k nick s))) =
          dim_advertisers (working s) @
          [\<lparr>advertiser_sk = advertiser_seq s, advertiser_id = a, nickname = nick,
            is_merchant = False, registration_days = 0,
            effective_date = utc_clock s (utc_calls s), expiration_date = None,
            is_current = True\<rparr>]"
      by blast
    from n have "a \<notin> advertiser_id ` set (filter is_current (dim_advertisers (working s)))"
      by (auto simp: find_None_iff)
    with u r show ?thesis by (simp add: adv_unique_def)
  qed
qed

lemma load_batch_adv_unique:
  "preserves (\<lambda>s. adv_unique (working s)) (load_batch offers batch)"
  by (rule load_batch_preserves) (simp_all add: adv_leaves adv_unique_advertiser)

text \<open>
  C9. If no advertiser id has two current rows among the committed rows before a call of
  \<open>load_offers\<close>, none has after it. And one advertiser resolution either leaves the
  advertiser table as it is, or, the id being neither cached nor present with a current
  row, appends exactly one row for it, marked current, with \<^verbatim>\<open>utcnow()\<close> as its effective
  date.
\<close>

theorem load_offers_keeps_one_current_advertiser:
  "(adv_unique (committed s) \<longrightarrow> adv_unique (committed (snd (load_offers offers batch s)))) \<and>
   (dim_advertisers (working (snd (get_or_create_advertiser k nick s))) = dim_advertisers (working s) \<or>
    (\<exists>a. natural_key k = Inr a \<and> advertiser_cache s a = None \<and>
        find (\<lambda>r. advertiser_id r = a \<and> is_current r) (dim_advertisers (working s)) = None \<and>
        dim_advertisers (working (snd (get_or_create_advertiser k nick s))) =
          dim_advertisers (working s) @
          [\<lparr>advertiser_sk = advertiser_seq s, advertiser_id = a, nickname = nick,
            is_merchant = False, registration_days = 0,
            effective_date = utc_clock s (utc_calls s), expiration_date = None,
            is_current = True\<rparr>]))"
proof (intro conjI impI)
  assume u: "adv_unique (committed s)"
  show "adv_unique (committed (snd (load_offers offers batch s)))"
  proof (cases "offers = []")
    case True with u show ?thesis by (simp add: load_offers_def)
  next
    case False
    have "adv_unique (committed (snd (with_session (load_batch offers batch) s)))"
    proof (rule with_session_invariant [where Q = "\<lambda>t. adv_unique (working t)"
                                         and R = "\<lambda>t. adv_unique (committed t)"])
      show "preserves (\<lambda>t. adv_unique (working t)) (load_batch offers batch)"
        by (rule load_batch_adv_unique)
      show "preserves (\<lambda>t. adv_unique (working t)) session_flush" by (rule adv_leaves)
      show "\<And>t. committed (snd (load_batch offers batch t)) = committed t"
        using load_batch_durable by simp
      show "adv_unique (working (session_open s))" using u by (simp add: session_open_def)
      show "\<And>t. adv_unique (working t) \<Longrightarrow> committed t = committed s \<Longrightarrow>
              adv_unique (committed (session_close (session_rollback t)))"
        using u by (simp add: session_close_def session_rollback_def)
      show "\<And>t. adv_unique (working t) \<Longrightarrow>
              adv_unique (committed (session_close (t\<lparr>committed := working t, events := events t @ [Committed]\<rparr>)))"
        by (simp add: session_close_def)
    qed
    with False show ?thesis by (simp add: load_offers_def)
  qed
next
  show "dim_advertisers (working (snd (get_or_create_advertiser k nick s))) = dim_advertisers (working s) \<or>
    (\<exists>a. natural_key k = Inr a \<and> advertiser_cache s a = None \<and>
        find (\<lambda>r. advertiser_id r = a \<and> is_current r) (dim_advertisers (working s)) = None \<and>
        dim_advertisers (working (snd (get_or_create_advertiser k nick s))) =
          dim_advertisers (working s) @
          [\<lparr>advertiser_sk = advertiser_seq s, advertiser_id = a, nickname = nick,
            is_merchant = False, registration_days = 0,
            effective_date = utc_clock s (utc_calls s), expiration_date = None,
            is_current = True\<rparr>])"
    by (rule get_or_create_advertiser_rows)
qed


subsection \<open>The fiat dimension across batches\<close>




























subsection \<open>Offers of the extractor in the loader\<close>

lemma load_dimensions_of_needs_advertiser:
  assumes "py_getitem offer ''advertiser'' = Inl e0"
  shows "\<exists>e. fst (load_dimensions_of offer s) = Inl e"
  using assms
  by (auto simp: load_dimensions_of_def resolve_advertiser_def sbind_def pure_step_def ebind_def
           split: leaf_splits)

lemma parse_offer_no_advertiser:
  assumes "parse_offer uid ad = Some offer"
  shows "py_getitem offer ''advertiser'' = Inl (KeyError ''advertiser'')"
  using assms unfolding parse_offer_Some_iff by auto

lemma load_offers_parsed_offer_raises:
  assumes "parse_offer uid ad = Some offer"
  shows "\<exists>e. fst (load_offers (offer # rest) batch s) = Inl e"
proof -
  from load_dimensions_of_needs_advertiser [OF parse_offer_no_advertiser [OF assms]]
  obtain e where "fst (load_dimensions_of offer (session_open s)) = Inl e" by blast
  then have "fst (load_batch (offer # rest) batch (session_open s)) = Inl e"
    by (cases "load_dimensions_of offer (session_open s)")
       (simp add: load_batch_def load_dimensions_def sbind_def)
  then show ?thesis
    by (auto simp: load_offers_def with_session_reraises)
qed

text \<open>
  C2 fails on the code. The offer that \<open>_parse_offer\<close> makes of a plain record has no
  \<^verbatim>\<open>advertiser\<close> entry (nor \<^verbatim>\<open>id\<close>), which \<open>_load_dimensions\<close> reads: loading it raises
  \<^verbatim>\<open>KeyError\<close>, the transaction is rolled back and no fact row is stored. By
  \<open>load_offers_parsed_offer_raises\<close> this is so for every offer of the parser.
\<close>

theorem load_offers_rejects_parsed_offer:
  "parse_offer ''u2'' raw_offer_plain = Some parsed_offer_plain \<and>
   fst (load_offers [parsed_offer_plain] ''b1'' fresh_state) = Inl (KeyError ''advertiser'') \<and>
   fact_offers (committed (snd (load_offers [parsed_offer_plain] ''b1'' fresh_state))) = [] \<and>
   events (snd (load_offers [parsed_offer_plain] ''b1'' fresh_state)) = [Opened, RolledBack, Closed]"
proof (intro conjI)
  show "parse_offer ''u2'' raw_offer_plain = Some parsed_offer_plain"
    by (simp add: parse_offer_def parse_offer_body_def parse_numeric_guarded_def parse_numeric_def
          ebind_def dict_get_def raw_offer_plain_def parsed_offer_plain_def decimal_eval)
  show "fst (load_offers [parsed_offer_plain] ''b1'' fresh_state) = Inl (KeyError ''advertiser'')"
    by (simp add: loader_eval fresh_state_def empty_warehouse_def parsed_offer_plain_def)
  show "fact_offers (committed (snd (load_offers [parsed_offer_plain] ''b1'' fresh_state))) = []"
    by (simp add: loader_eval fresh_state_def empty_warehouse_def parsed_offer_plain_def)
  show "events (snd (load_offers [parsed_offer_plain] ''b1'' fresh_state)) = [Opened, RolledBack, Closed]"
    by (simp add: loader_eval fresh_state_def empty_warehouse_def parsed_offer_plain_def)
qed

text \<open>The three paths of C4 on the sample state: empty list, a batch that loads, a batch that raises.\<close>

theorem load_offers_atomic_witness:
  "load_offers [] ''b1'' fresh_state = (Inr (), fresh_state) \<and>
   fst (load_offers [loader_offer ''o1'' ''adv1''] ''b1'' fresh_state) = Inr () \<and>
   events (snd (load_offers [loader_offer ''o1'' ''adv1''] ''b1'' fresh_state))
     = [Opened, Committed, Closed] \<and>
   fst (load_offers [offer_without_fiat] ''b1'' fresh_state) = Inl (KeyError ''fiat'') \<and>
   committed (snd (load_offers [offer_without_fiat] ''b1'' fresh_state)) = committed fresh_state \<and>
   events (snd (load_offers [offer_without_fiat] ''b1'' fresh_state))
     = [Opened, RolledBack, Closed]"
proof -
  have ok: "fst (load_offers [loader_offer ''o1'' ''adv1''] ''b1'' fresh_state) = Inr ()"
    by (simp add: loader_eval fresh_state_def empty_warehouse_def loader_offer_def)
  have bad: "fst (load_offers [offer_without_fiat] ''b1'' fresh_state) = Inl (KeyError ''fiat'')"
    by (simp add: loader_eval fresh_state_def empty_warehouse_def offer_without_fiat_def)
  have ev: "events fresh_state = []" by (simp add: fresh_state_def)
  note t1 = load_offers_atomic [of "''b1''" fresh_state "[loader_offer ''o1'' ''adv1'']"]
  note t2 = load_offers_atomic [of "''b1''" fresh_state "[offer_without_fiat]"]
  have e: "load_offers [] ''b1'' fresh_state = (Inr (), fresh_state)"
    using t1 by (rule conjunct1)
  have c: "events (snd (load_offers [loader_offer ''o1'' ''adv1''] ''b1'' fresh_state))
             = [Opened, Committed, Closed]"
    using t1 ok ev by simp
  have r: "committed (snd (load_offers [offer_without_fiat] ''b1'' fresh_state)) = committed fresh_state \<and>
           events (snd (load_offers [offer_without_fiat] ''b1'' fresh_state)) = [Opened, RolledBack, Closed]"
    using t2 bad ev by simp
  from e ok c bad r show ?thesis by (intro conjI) simp_all
qed



text \<open>Two offers of one advertiser in a batch give one current row.\<close>

theorem load_offers_keeps_one_current_advertiser_witness:
  "adv_unique (committed fresh_state) \<and>
   adv_unique (committed (snd (load_offers [loader_offer ''o1'' ''adv1'', loader_offer ''o2'' ''adv1'']
                                  ''b1'' fresh_state))) \<and>
   map advertiser_id (dim_advertisers (committed
       (snd (load_offers [loader_offer ''o1'' ''adv1'', loader_offer ''o2'' ''adv1'']
               ''b1'' fresh_state)))) = [''adv1'']"
proof -
  have u: "adv_unique (committed fresh_state)"
    by (simp add: adv_unique_def fresh_state_def empty_warehouse_def)
  from load_offers_keeps_one_current_advertiser
         [of fresh_state "[loader_offer ''o1'' ''adv1'', loader_offer ''o2'' ''adv1'']" "''b1''",
          THEN conjunct1, rule_format, OF u]
  have k: "adv_unique (committed (snd (load_offers [loader_offer ''o1'' ''adv1'', loader_offer ''o2'' ''adv1'']
                                  ''b1'' fresh_state)))" .
  have r: "map advertiser_id (dim_advertisers (committed
       (snd (load_offers [loader_offer ''o1'' ''adv1'', loader_offer ''o2'' ''adv1'']
               ''b1'' fresh_state)))) = [''adv1'']"
    by (simp add: loader_eval fresh_state_def empty_warehouse_def loader_offer_def)
  from u k r show ?thesis by (intro conjI)
qed

end
